theory Spec2Isabelle
  imports Main
begin

section \<open>Python string operations used by the e-mail importer\<close>

text \<open>
  Strings are lists of 8-bit characters. The functions below are the fragments of
  Python's \<^verbatim>\<open>str\<close> interface that \<^verbatim>\<open>helpdesk/email.py\<close> calls, written
  out for the ASCII range (case mapping and white space of characters beyond ASCII are
  left unchanged).
\<close>

definition lower_char :: "char \<Rightarrow> char" where
  "lower_char c =
     (case map_of (zip ''ABCDEFGHIJKLMNOPQRSTUVWXYZ'' ''abcdefghijklmnopqrstuvwxyz'') c of
        None \<Rightarrow> c
      | Some l \<Rightarrow> l)"

definition lower :: "string \<Rightarrow> string" where
  "lower s = map lower_char s"

definition is_space :: "char \<Rightarrow> bool" where
  "is_space c = (c \<in> set [CHR '' '', CHR 0x09, CHR 0x0A, CHR 0x0B, CHR 0x0C, CHR 0x0D,
                           CHR 0x1C, CHR 0x1D, CHR 0x1E, CHR 0x1F])"

definition strip :: "string \<Rightarrow> string" where
  "strip s = rev (dropWhile is_space (rev (dropWhile is_space s)))"

definition is_digit :: "char \<Rightarrow> bool" where
  "is_digit c = (c \<in> set ''0123456789'')"

definition digit_val :: "char \<Rightarrow> nat" where
  "digit_val c = length (takeWhile (\<lambda>d. d \<noteq> c) ''0123456789'')"

text \<open>\<^verbatim>\<open>int(s)\<close> for a string of decimal digits (the only strings it is applied to
  are captures of \<^verbatim>\<open>\d+\<close>).\<close>

definition py_int :: "string \<Rightarrow> nat" where
  "py_int s = fold (\<lambda>c n. 10 * n + digit_val c) s 0"

text \<open>\<^verbatim>\<open>"%i" % n\<close>: the decimal numeral of a natural number.\<close>

fun str_nat_fuel :: "nat \<Rightarrow> nat \<Rightarrow> string" where
  "str_nat_fuel 0 n = [''0123456789'' ! (n mod 10)]"
| "str_nat_fuel (Suc k) n =
     (if n < 10 then [''0123456789'' ! n]
      else str_nat_fuel k (n div 10) @ [''0123456789'' ! (n mod 10)])"

definition str_nat :: "nat \<Rightarrow> string" where
  "str_nat n = str_nat_fuel n n"

text \<open>\<^verbatim>\<open>s.startswith(p)\<close>, and the rest of \<open>s\<close> after a prefix \<open>p\<close>.\<close>

fun startswith :: "string \<Rightarrow> string \<Rightarrow> bool" where
  "startswith s [] = True"
| "startswith [] (p # ps) = False"
| "startswith (c # cs) (p # ps) = (c = p \<and> startswith cs ps)"

text \<open>\<^verbatim>\<open>p in s\<close> for strings: \<open>p\<close> occurs in \<open>s\<close> as a contiguous substring.\<close>

fun py_in :: "string \<Rightarrow> string \<Rightarrow> bool" where
  "py_in p [] = (p = [])"
| "py_in p (c # cs) = (startswith (c # cs) p \<or> py_in p cs)"

text \<open>\<^verbatim>\<open>s.replace(old, "")\<close> for a non-empty \<open>old\<close>: all non-overlapping
  occurrences are deleted, scanning from the left. The counter skips the characters of
  an occurrence that has just been found.\<close>

fun delete_all_skip :: "string \<Rightarrow> nat \<Rightarrow> string \<Rightarrow> string" where
  "delete_all_skip old k [] = []"
| "delete_all_skip old (Suc k) (c # cs) = delete_all_skip old k cs"
| "delete_all_skip old 0 (c # cs) =
     (if old \<noteq> [] \<and> startswith (c # cs) old then delete_all_skip old (length old - 1) cs
      else c # delete_all_skip old 0 cs)"

definition delete_all :: "string \<Rightarrow> string \<Rightarrow> string" where
  "delete_all old s = delete_all_skip old 0 s"

text \<open>\<^verbatim>\<open>s.split(',')\<close>: the fields between separators, at least one field.\<close>

fun split_on :: "char \<Rightarrow> string \<Rightarrow> string list" where
  "split_on sep [] = [[]]"
| "split_on sep (c # cs) =
     (case split_on sep cs of
        [] \<Rightarrow> [[c]]
      | w # ws \<Rightarrow> if c = sep then [] # w # ws else (c # w) # ws)"

text \<open>\<^verbatim>\<open>sep.join(xs)\<close>.\<close>

fun join :: "string \<Rightarrow> string list \<Rightarrow> string" where
  "join sep [] = []"
| "join sep [x] = x"
| "join sep (x # y # ys) = x @ sep @ join sep (y # ys)"

text \<open>Truthiness of an optional string: \<^verbatim>\<open>None\<close> and \<^verbatim>\<open>""\<close> are false.\<close>

definition truthy :: "string option \<Rightarrow> bool" where
  "truthy x = (case x of None \<Rightarrow> False | Some s \<Rightarrow> s \<noteq> [])"


section \<open>Data model\<close>

text \<open>
  Modelled from the spec: the status constants of \<^verbatim>\<open>Ticket\<close>
  (\<^verbatim>\<open>helpdesk/models.py\<close> is not among the sources). The spec lists the fixed set
  OPEN, REOPENED, REPLIED, RESOLVED, CLOSED, DUPLICATE.
\<close>

datatype status =
  OPEN_STATUS | REOPENED_STATUS | REPLIED_STATUS | RESOLVED_STATUS | CLOSED_STATUS
  | DUPLICATE_STATUS

text \<open>The exceptions that leave the functions modelled here.\<close>

datatype error =
  AttributeError | IntegrityError | DoesNotExist | MultipleObjectsReturned

text \<open>A user account, as the ORM loads it.\<close>

record user =
  user_pk :: nat
  user_email :: string
  user_full_name :: string
  user_username :: string

record queue =
  q_slug :: string
  q_email_address :: string
  q_match_on :: "string list"
  q_match_on_addresses :: "string list"
  q_default_owner :: "user option"
  q_organization :: nat
  q_enable_notifications_on_email_events :: bool

record ticket =
  t_id :: nat
  t_title :: string
  t_queue :: queue
  t_contact_name :: "string option"
  t_contact_email :: "string option"
  t_submitter_email :: string
  t_created :: nat
  t_description :: string
  t_priority :: nat
  t_form_org :: nat
  t_assigned_to :: "user option"
  t_status :: status
  t_merged_to :: "nat option"

record followup =
  f_id :: nat
  f_ticket :: "nat option"
  f_title :: string
  f_date :: nat
  f_public :: bool
  f_comment :: string
  f_message_id :: string
  f_new_status :: "status option"

record ticketcc =
  cc_ticket :: nat
  cc_user :: "user option"
  cc_email :: "string option"

record ignoreemail =
  ie_importers :: "nat list"
  ie_pattern :: string
  ie_keep_in_mailbox :: bool

text \<open>The arguments of one \<^verbatim>\<open>SimpleUploadedFile(name, content, content_type)\<close>.\<close>

record upload =
  up_name :: string
  up_content :: string
  up_content_type :: "string option"

record attachment =
  att_followup :: nat
  att_filename :: string
  att_content_type :: "string option"

text \<open>One call of \<^verbatim>\<open>ticket.send_ticket_mail(roles, ..., source=...)\<close>: the ticket, the
  (role, template) pairs and the source label.\<close>

record mail =
  mail_ticket :: nat
  mail_roles :: "(string \<times> string) list"
  mail_source :: string

text \<open>The database, and the outbox of the notification dispatcher.\<close>

record db =
  tickets :: "ticket list"
  followups :: "followup list"
  ticketccs :: "ticketcc list"
  ignoreemails :: "ignoreemail list"
  attachments :: "attachment list"
  outbox :: "mail list"

text \<open>
  Settings and the collaborators whose code is outside \<^verbatim>\<open>helpdesk/email.py\<close>:
  \<^item> the three settings the importer reads;
  \<^item> \<open>now\<close>: \<^verbatim>\<open>timezone.now()\<close>;
  \<^item> \<open>users_by_email\<close>: the rows of \<^verbatim>\<open>User.objects.filter(email=...)\<close>, in query order;
  \<^item> \<open>holds_staff_privilege\<close>: whether an account holds staff privilege in an organisation;
  \<^item> \<open>form_fields\<close>: the field names of the organisation's e-mail ticket form;
  \<^item> \<open>followup_ticket_nullable\<close>: whether the schema lets a FollowUp be stored with no
    ticket (the schema is not among the sources);
  \<^item> \<open>valid_email\<close>: the e-mail validator behind \<^verbatim>\<open>subscribe_to_ticket_updates\<close>;
  \<^item> \<open>ignore_test\<close>: \<^verbatim>\<open>IgnoreEmail.test\<close>, from the rule's pattern and an address.
\<close>

record env =
  QUEUE_EMAIL_BOX_UPDATE_ONLY :: bool
  HELPDESK_FULL_FIRST_MESSAGE_FROM_EMAIL :: bool
  HELPDESK_ALWAYS_SAVE_INCOMING_EMAIL_MESSAGE :: bool
  now :: nat
  users_by_email :: "string \<Rightarrow> user list"
  holds_staff_privilege :: "user \<Rightarrow> nat \<Rightarrow> bool"
  form_fields :: "nat \<Rightarrow> string list"
  followup_ticket_nullable :: bool
  valid_email :: "string \<Rightarrow> bool"
  ignore_test :: "string \<Rightarrow> string \<Rightarrow> bool"

text \<open>One MIME part of \<^verbatim>\<open>message.walk()\<close>: its content type, the \<^verbatim>\<open>name\<close> parameter of
  the content type (\<^verbatim>\<open>part.get_param("name")\<close>), the decoded payload, the transfer
  encoding and the declared charset.\<close>

record part =
  p_maintype :: string
  p_subtype :: string
  p_name :: "string option"
  p_payload :: string
  p_cte :: "string option"
  p_charset :: "string option"

text \<open>
  A parsed message: the headers the importer reads (\<^verbatim>\<open>message.get\<close>; \<open>None\<close> when the
  header is absent), with \<^verbatim>\<open>parseaddr\<close> and \<^verbatim>\<open>getaddresses\<close> already applied to the
  address headers, and the parts of the MIME walk. \<open>m_subject\<close> is the subject after
  \<^verbatim>\<open>decode_mail_headers(decode_unknown(...))\<close> (the default \<^verbatim>\<open>Comment from e-mail\<close>
  when the header is absent); a folded header keeps its line feeds. \<open>m_message_id\<close> and
  \<open>m_in_reply_to\<close> are the addresses \<^verbatim>\<open>parseaddr\<close> finds in the two headers, empty when
  absent.
\<close>

record message =
  m_subject :: string
  m_from :: "string \<times> string"
  m_to :: "(string \<times> string) list"
  m_cc :: "(string \<times> string) list"
  m_message_id :: string
  m_in_reply_to :: string
  m_delivered :: "string option"
  m_priority :: "string option"
  m_importance :: "string option"
  m_auto_submitted :: "string option"
  m_auto_response_suppress :: "string option"
  m_list_id :: "string option"
  m_list_unsubscribe :: "string option"
  m_parts :: "part list"

text \<open>The \<^verbatim>\<open>payload\<close> dictionary. \<open>pl_full_body = None\<close> stands for a dictionary
  without the key \<^verbatim>\<open>'full_body'\<close>.\<close>

record payload =
  pl_body :: string
  pl_full_body :: "string option"
  pl_subject :: string
  pl_queue :: queue
  pl_sender :: "string \<times> string"
  pl_priority :: nat
  pl_files :: "upload list"
  pl_cc_list :: "(string \<times> string) list"
  pl_to_list :: "(string \<times> string) list"

section \<open>Object-relational lookups\<close>

text \<open>\<^verbatim>\<open>Ticket.objects.get(id=n)\<close>; \<open>None\<close> is \<^verbatim>\<open>Ticket.DoesNotExist\<close>.\<close>

definition get_ticket :: "db \<Rightarrow> nat \<Rightarrow> ticket option" where
  "get_ticket d n = find (\<lambda>t. t_id t = n) (tickets d)"

text \<open>\<^verbatim>\<open>queryset.order_by('-date').first()\<close>: a row of greatest date (the earliest such
  row of the table when dates tie).\<close>

fun latest :: "followup list \<Rightarrow> followup option" where
  "latest [] = None"
| "latest (f # fs) =
     (case latest fs of
        None \<Rightarrow> Some f
      | Some g \<Rightarrow> if f_date f < f_date g then Some g else Some f)"

definition followup_for_message_id :: "db \<Rightarrow> string \<Rightarrow> followup option" where
  "followup_for_message_id d mid = latest (filter (\<lambda>f. f_message_id f = mid) (followups d))"

text \<open>\<^verbatim>\<open>User.objects.filter(email=e).first()\<close>.\<close>

definition first_user :: "env \<Rightarrow> string \<Rightarrow> user option" where
  "first_user e addr = (case users_by_email e addr of [] \<Rightarrow> None | u # us \<Rightarrow> Some u)"

text \<open>
  Modelled from the spec: \<^verbatim>\<open>is_helpdesk_staff(user, organization_id)\<close> of
  \<^verbatim>\<open>helpdesk/decorators.py\<close>, which is not among the sources. The spec derives staff
  status from whether the account holds staff privilege in the ticket's organisation;
  where there is no account there is no privilege.
\<close>

definition is_helpdesk_staff :: "env \<Rightarrow> user option \<Rightarrow> nat \<Rightarrow> bool" where
  "is_helpdesk_staff e u org =
     (case u of None \<Rightarrow> False | Some usr \<Rightarrow> holds_staff_privilege e usr org)"

text \<open>
  Python's \<^verbatim>\<open>a is b\<close> for the two objects line 512 compares: the updater, loaded by
  the query of line 508, and \<^verbatim>\<open>ticket.assigned_to\<close>, loaded through the ticket. Two objects
  that come from separate queries are never the same object, whatever account they
  stand for; the test holds only when both are \<^verbatim>\<open>None\<close>.
\<close>

definition py_is :: "user option \<Rightarrow> user option \<Rightarrow> bool" where
  "py_is a b = (a = None \<and> b = None)"

text \<open>The primary key a new row gets.\<close>

definition fresh_id :: "nat list \<Rightarrow> nat" where
  "fresh_id ids = Suc (fold max ids 0)"

text \<open>\<^verbatim>\<open>ticket.save()\<close> and \<^verbatim>\<open>f.save()\<close> of an object that has a row.\<close>

definition save_ticket :: "db \<Rightarrow> ticket \<Rightarrow> db" where
  "save_ticket d t = d\<lparr>tickets := map (\<lambda>x. if t_id x = t_id t then t else x) (tickets d)\<rparr>"

definition save_followup :: "db \<Rightarrow> followup \<Rightarrow> db" where
  "save_followup d f = d\<lparr>followups := map (\<lambda>x. if f_id x = f_id f then f else x) (followups d)\<rparr>"


section \<open>Collaborators of the ingestion engine\<close>

text \<open>
  Modelled from the spec: \<^verbatim>\<open>subscribe_to_ticket_updates\<close> of \<^verbatim>\<open>helpdesk/views/staff.py\<close>,
  which is not among the sources. An address is subscribed as a TicketCC record of the
  ticket, deduplicated against the existing subscriptions; an invalid address is a
  \<^verbatim>\<open>ValidationError\<close>, here \<open>None\<close>.
\<close>

definition subscribe_to_ticket_updates ::
  "env \<Rightarrow> db \<Rightarrow> ticket \<Rightarrow> user option \<Rightarrow> string \<Rightarrow> db option" where
  "subscribe_to_ticket_updates e d t usr addr =
     (if valid_email e addr then
        (if list_ex (\<lambda>c. cc_ticket c = t_id t \<and> cc_email c = Some addr) (ticketccs d) then Some d
         else Some (d\<lparr>ticketccs := ticketccs d @
                       [\<lparr>cc_ticket = t_id t, cc_user = usr, cc_email = Some addr\<rparr>]\<rparr>))
      else None)"

text \<open>
  Modelled from the spec: \<^verbatim>\<open>process_attachments(followup, files)\<close> of
  \<^verbatim>\<open>helpdesk/lib.py\<close>, which is not among the sources: it stores the uploaded files as
  attachments of the follow-up, each with its file name and content type.
\<close>

definition process_attachments :: "db \<Rightarrow> followup \<Rightarrow> upload list \<Rightarrow> db" where
  "process_attachments d f files =
     d\<lparr>attachments := attachments d @
          map (\<lambda>u. \<lparr>att_followup = f_id f, att_filename = up_name u,
                     att_content_type = up_content_type u\<rparr>) files\<rparr>"

text \<open>\<^verbatim>\<open>ticket.send_ticket_mail(roles, ..., fail_silently=True, source=...)\<close>: the call is
  recorded in the outbox; it never raises.\<close>

definition send_ticket_mail :: "db \<Rightarrow> ticket \<Rightarrow> (string \<times> string) list \<Rightarrow> string \<Rightarrow> db" where
  "send_ticket_mail d t roles source =
     d\<lparr>outbox := outbox d @ [\<lparr>mail_ticket = t_id t, mail_roles = roles, mail_source = source\<rparr>]\<rparr>"

section \<open>\<^verbatim>\<open>is_autoreply\<close> and \<^verbatim>\<open>create_ticket_cc\<close>\<close>

definition is_autoreply :: "message \<Rightarrow> bool" where
  "is_autoreply m =
     ((case m_auto_submitted m of
         None \<Rightarrow> False
       | Some v \<Rightarrow> if v = [] then False else lower v \<noteq> ''no'')
      \<or> (m_auto_response_suppress m = Some ''DR''
          \<or> m_auto_response_suppress m = Some ''AutoReply''
          \<or> m_auto_response_suppress m = Some ''All'')
      \<or> truthy (m_list_id m)
      \<or> truthy (m_list_unsubscribe m))"

text \<open>The loop of \<^verbatim>\<open>create_ticket_cc\<close>. \<^verbatim>\<open>User.objects.get(email=...)\<close> raises
  \<^verbatim>\<open>MultipleObjectsReturned\<close> when several accounts share the address; only
  \<^verbatim>\<open>DoesNotExist\<close> is caught.\<close>

fun create_ticket_cc :: "env \<Rightarrow> db \<Rightarrow> ticket \<Rightarrow> (string \<times> string) list \<Rightarrow> (error \<times> db) + db" where
  "create_ticket_cc e d t [] = Inr d"
| "create_ticket_cc e d t ((cced_name, cced_email) # rest) =
     (let addr = strip cced_email in
      if addr = q_email_address (t_queue t) then create_ticket_cc e d t rest
      else
        (case users_by_email e addr of
           u1 # u2 # us \<Rightarrow> Inl (MultipleObjectsReturned, d)
         | us \<Rightarrow>
             (case subscribe_to_ticket_updates e d t (case us of [] \<Rightarrow> None | u # _ \<Rightarrow> Some u) addr of
                None \<Rightarrow> create_ticket_cc e d t rest
              | Some d' \<Rightarrow> create_ticket_cc e d' t rest)))"

section \<open>\<^verbatim>\<open>create_object_from_email_message\<close>\<close>

text \<open>
  Lines 450--474: the ticket the message belongs to. A follow-up whose message id equals
  the \<^verbatim>\<open>In-Reply-To\<close> address gives its ticket; otherwise the ticket id parsed from the
  tracking tag is looked up, and only on this path a merged ticket is replaced by its
  merge target. The result holds the ticket (if any) and whether a previous follow-up
  was found.
\<close>

definition resolve_ticket :: "db \<Rightarrow> string \<Rightarrow> string option \<Rightarrow> error + ticket option" where
  "resolve_ticket d in_reply_to ticket_id =
     (case (if in_reply_to \<noteq> [] then followup_for_message_id d in_reply_to else None) of
        Some previous_followup \<Rightarrow>
          (case f_ticket previous_followup of
             None \<Rightarrow> Inl AttributeError
           | Some n \<Rightarrow>
               (case get_ticket d n of
                  None \<Rightarrow> Inl DoesNotExist
                | Some t \<Rightarrow> Inr (Some t)))
      | None \<Rightarrow>
          (case ticket_id of
             None \<Rightarrow> Inr None
           | Some tid \<Rightarrow>
               (case get_ticket d (py_int tid) of
                  None \<Rightarrow> Inr None
                | Some t \<Rightarrow>
                    (case t_merged_to t of
                       None \<Rightarrow> Inr (Some t)
                     | Some target \<Rightarrow>
                         (case get_ticket d target of
                            None \<Rightarrow> Inl DoesNotExist
                          | Some t' \<Rightarrow> Inr (Some t'))))))"

text \<open>Lines 477--496: a new ticket when none was found, unless update-only mode is on.
  The result is the ticket variable, the flag \<^verbatim>\<open>new\<close> and the database. A new ticket
  starts in status OPEN (the spec's data model; the column default is not among the
  sources). The row that \<^verbatim>\<open>FormType.objects.get_or_create\<close> may add is not part of
  the database modelled here; the form's field names come from the environment.\<close>

definition ensure_ticket :: "env \<Rightarrow> db \<Rightarrow> payload \<Rightarrow> ticket option \<Rightarrow> ticket option \<times> bool \<times> db" where
  "ensure_ticket e d pl found =
     (case found of
        Some t \<Rightarrow> (Some t, False, d)
      | None \<Rightarrow>
          (if QUEUE_EMAIL_BOX_UPDATE_ONLY e then (None, False, d)
           else
             (let queue = pl_queue pl;
                  fields = form_fields e (q_organization queue);
                  t = \<lparr>t_id = fresh_id (map t_id (tickets d)),
                       t_title = take 200 (pl_subject pl),
                       t_queue = queue,
                       t_contact_name =
                         (if ''contact_name'' \<in> set fields then Some (take 200 (fst (pl_sender pl)))
                          else None),
                       t_contact_email =
                         (if ''contact_email'' \<in> set fields then Some (take 200 (snd (pl_sender pl)))
                          else None),
                       t_submitter_email = snd (pl_sender pl),
                       t_created = now e,
                       t_description = pl_body pl,
                       t_priority = pl_priority pl,
                       t_form_org = q_organization queue,
                       t_assigned_to = q_default_owner queue,
                       t_status = OPEN_STATUS,
                       t_merged_to = None\<rparr>
              in (Some t, True, d\<lparr>tickets := tickets d @ [t]\<rparr>))))"

text \<open>\<^verbatim>\<open>x or ""\<close> on a string.\<close>

definition or_empty :: "string \<Rightarrow> string" where
  "or_empty x = (if x \<noteq> [] then x else [])"

text \<open>Lines 498--505: \<^verbatim>\<open>FollowUp.objects.create(ticket=ticket, ...)\<close>. It is reached with
  no ticket when update-only mode left the variable \<^verbatim>\<open>None\<close>.\<close>

definition create_followup ::
  "env \<Rightarrow> db \<Rightarrow> ticket option \<Rightarrow> payload \<Rightarrow> string \<Rightarrow> error + followup \<times> db" where
  "create_followup e d ticket pl message_id =
     (if ticket = None \<and> \<not> followup_ticket_nullable e then Inl IntegrityError
      else
        (let f = \<lparr>f_id = fresh_id (map f_id (followups d)),
                  f_ticket = map_option t_id ticket,
                  f_title = take 200 (''E-Mail Received from '' @ snd (pl_sender pl)),
                  f_date = now e,
                  f_public = True,
                  f_comment =
                    or_empty (case pl_full_body pl of None \<Rightarrow> pl_body pl | Some fb \<Rightarrow> fb),
                  f_message_id = message_id,
                  f_new_status = None\<rparr>
         in Inr (f, d\<lparr>followups := followups d @ [f]\<rparr>)))"

text \<open>Line 512: \<^verbatim>\<open>(submitter_is_staff and updater is not ticket.assigned_to) or not
  updater_is_staff\<close>, with the four lookups of lines 508--511.\<close>

definition public_update :: "env \<Rightarrow> ticket \<Rightarrow> string \<Rightarrow> bool" where
  "public_update e t sender_email =
     (let updater = first_user e sender_email;
          submitter = first_user e (t_submitter_email t);
          updater_is_staff = is_helpdesk_staff e updater (t_form_org t);
          submitter_is_staff = is_helpdesk_staff e submitter (t_form_org t)
      in (submitter_is_staff \<and> \<not> py_is updater (t_assigned_to t)) \<or> \<not> updater_is_staff)"

text \<open>Lines 512--530 on the two objects in memory: the ticket's status, and the status
  marker and title of the follow-up.\<close>

definition apply_status_update ::
  "env \<Rightarrow> ticket \<Rightarrow> followup \<Rightarrow> string \<Rightarrow> error + ticket \<times> followup" where
  "apply_status_update e t f sender_email =
     (let updater = first_user e sender_email;
          updater_is_staff = is_helpdesk_staff e updater (t_form_org t)
      in if public_update e t sender_email then
           (if t_status t = CLOSED_STATUS \<or> t_status t = RESOLVED_STATUS
                \<or> t_status t = DUPLICATE_STATUS then
              (if updater_is_staff then
                 (case updater of
                    None \<Rightarrow> Inl AttributeError
                  | Some u \<Rightarrow>
                      Inr (t\<lparr>t_status := REOPENED_STATUS\<rparr>,
                           f\<lparr>f_new_status := Some REOPENED_STATUS,
                             f_title := ''Ticket Re-Opened by E-Mail Received from '' @
                               (if user_full_name u \<noteq> [] then user_full_name u
                                else user_username u)\<rparr>))
               else
                 Inr (t\<lparr>t_status := REOPENED_STATUS\<rparr>,
                      f\<lparr>f_new_status := Some REOPENED_STATUS,
                        f_title := ''Ticket Re-Opened by E-Mail Received from '' @ sender_email\<rparr>))
            else if t_status t = REPLIED_STATUS then
              Inr (t\<lparr>t_status := OPEN_STATUS\<rparr>, f\<lparr>f_new_status := Some OPEN_STATUS\<rparr>)
            else Inr (t, f))
         else
           (if t_status t \<noteq> CLOSED_STATUS \<and> t_status t \<noteq> RESOLVED_STATUS
                \<and> t_status t \<noteq> DUPLICATE_STATUS then
              Inr (t\<lparr>t_status := REPLIED_STATUS\<rparr>, f\<lparr>f_new_status := Some REPLIED_STATUS\<rparr>)
            else Inr (t, f)))"

text \<open>Lines 507--532, for a message that did not create its ticket: the update, then
  \<^verbatim>\<open>ticket.save()\<close> and \<^verbatim>\<open>f.save()\<close>. With no ticket at all,
  \<^verbatim>\<open>ticket.submitter_email\<close> raises.\<close>

definition update_ticket_status ::
  "env \<Rightarrow> db \<Rightarrow> ticket option \<Rightarrow> followup \<Rightarrow> string \<Rightarrow> error + ticket \<times> followup \<times> db" where
  "update_ticket_status e d ticket f sender_email =
     (case ticket of
        None \<Rightarrow> Inl AttributeError
      | Some t \<Rightarrow>
          (case apply_status_update e t f sender_email of
             Inl err \<Rightarrow> Inl err
           | Inr (t', f') \<Rightarrow> Inr (t', f', save_followup (save_ticket d t') f')))"

text \<open>Lines 537--597: attachments, subscriptions and notifications for the ticket and
  its new follow-up.\<close>

definition notify :: "db \<Rightarrow> message \<Rightarrow> queue \<Rightarrow> ticket \<Rightarrow> bool \<Rightarrow> db" where
  "notify d message queue t new =
     (if is_autoreply message then d
      else if new then
        send_ticket_mail d t
          ([(''submitter'', ''newticket_submitter''), (''queue_new'', ''newticket_cc_user''),
            (''queue_updated'', ''newticket_cc_user''), (''cc_users'', ''newticket_cc_user''),
            (''cc_public'', ''newticket_cc_public''), (''extra'', ''newticket_cc_public'')]
           @ (if t_assigned_to t \<noteq> None then [(''assigned_to'', ''assigned_owner'')] else []))
          ''import (new ticket)''
      else
        (let d1 = send_ticket_mail d t
                    [(''submitter'', ''updated_submitter''), (''assigned_to'', ''updated_owner''),
                     (''cc_users'', ''updated_cc_user''), (''queue_updated'', ''updated_cc_user'')]
                    ''import (submitter, staff)''
         in if q_enable_notifications_on_email_events queue then
              send_ticket_mail d1 t
                [(''cc_public'', ''updated_cc_public''), (''extra'', ''updated_cc_public'')]
                ''import (public)''
            else d1))"

definition attach_subscribe_notify ::
  "env \<Rightarrow> db \<Rightarrow> message \<Rightarrow> payload \<Rightarrow> upload list \<Rightarrow> ticket \<Rightarrow> followup \<Rightarrow> bool
     \<Rightarrow> (error \<times> db) + (ticket \<times> db)" where
  "attach_subscribe_notify e d message pl files t f new =
     (case create_ticket_cc e (process_attachments d f files) t (pl_to_list pl @ pl_cc_list pl) of
        Inl err \<Rightarrow> Inl err
      | Inr d' \<Rightarrow> Inr (t, notify d' message (pl_queue pl) t new))"

text \<open>The whole function. An exception leaves the database as it was when raised
  (the function opens no transaction).\<close>

definition create_object_from_email_message ::
  "env \<Rightarrow> db \<Rightarrow> message \<Rightarrow> string option \<Rightarrow> payload \<Rightarrow> upload list
     \<Rightarrow> (error \<times> db) + (ticket \<times> db)" where
  "create_object_from_email_message e d message ticket_id pl files =
     (case resolve_ticket d (m_in_reply_to message) ticket_id of
        Inl err \<Rightarrow> Inl (err, d)
      | Inr found \<Rightarrow>
          (case ensure_ticket e d pl found of
             (ticket, new, d1) \<Rightarrow>
               (case create_followup e d1 ticket pl (m_message_id message) of
                  Inl err \<Rightarrow> Inl (err, d1)
                | Inr (f, d2) \<Rightarrow>
                    (if new then
                       (case ticket of
                          None \<Rightarrow> Inl (AttributeError, d2)
                        | Some t \<Rightarrow> attach_subscribe_notify e d2 message pl files t f True)
                     else
                       (case update_ticket_status e d2 ticket f (snd (pl_sender pl)) of
                          Inl err \<Rightarrow> Inl (err, d2)
                        | Inr (t', f', d3) \<Rightarrow>
                            attach_subscribe_notify e d3 message pl files t' f' False)))))"

text \<open>The database a run ends with, and whether it ended without an exception.\<close>

definition final_db :: "(error \<times> db) + ('a \<times> db) \<Rightarrow> db" where
  "final_db r = (case r of Inl (err, d) \<Rightarrow> d | Inr (x, d) \<Rightarrow> d)"


section \<open>\<^verbatim>\<open>object_from_message\<close>\<close>

text \<open>
  The library functions \<^verbatim>\<open>object_from_message\<close> calls (\<^verbatim>\<open>email\<close>, \<^verbatim>\<open>mimetypes\<close>,
  \<^verbatim>\<open>re\<close>, \<^verbatim>\<open>EmailReplyParser\<close>, \<^verbatim>\<open>BeautifulSoup\<close>, Django's \<^verbatim>\<open>encoding\<close>) are
  parameters:
  \<^item> \<open>collapse_rfc2231_value\<close>, \<open>guess_extension\<close>, \<open>guess_type\<close>: as named in the source;
  \<^item> \<open>unicode_escape\<close>: \<^verbatim>\<open>body.decode('unicode_escape')\<close> on bytes;
  \<^item> \<open>bytes_to_str\<close>: \<^verbatim>\<open>str(string, encoding=charset, errors='replace')\<close>;
  \<^item> \<open>reply_fragments\<close>: the contents of \<^verbatim>\<open>EmailReplyParser.read(body).fragments\<close>;
  \<^item> \<open>parse_reply\<close>: \<^verbatim>\<open>EmailReplyParser.parse_reply\<close>;
  \<^item> \<open>ascii_unescape\<close>: lines 712--717;
  \<^item> \<open>smart_text\<close>: lines 720--723 on a part;
  \<^item> \<open>html_get_text\<close>: \<^verbatim>\<open>BeautifulSoup(..., "html.parser").get_text()\<close>;
  \<^item> \<open>find_body_text\<close>: the text of the \<^verbatim>\<open>body\<close> element of the whole message, if any;
  \<^item> \<open>message_bytes\<close>: \<^verbatim>\<open>str(message).encode("utf-8")\<close>;
  \<^item> \<open>eml_name\<close>: the time-stamped name of the archived message;
  \<^item> \<open>word_search\<close>: \<^verbatim>\<open>re.compile(r'\b%s\b' % m, re.I).search(subject)\<close>, from \<open>m\<close> and
    the subject.
\<close>

record lib =
  collapse_rfc2231_value :: "string \<Rightarrow> string"
  guess_extension :: "string \<Rightarrow> string option"
  guess_type :: "string \<Rightarrow> string option"
  unicode_escape :: "string \<Rightarrow> string"
  bytes_to_str :: "string \<Rightarrow> string \<Rightarrow> string"
  reply_fragments :: "string \<Rightarrow> string list"
  parse_reply :: "string \<Rightarrow> string"
  ascii_unescape :: "string \<Rightarrow> string"
  smart_text :: "part \<Rightarrow> string"
  html_get_text :: "string \<Rightarrow> string"
  find_body_text :: "message \<Rightarrow> string option"
  message_bytes :: "message \<Rightarrow> string"
  eml_name :: string
  word_search :: "string \<Rightarrow> string \<Rightarrow> bool"

text \<open>The dictionary \<^verbatim>\<open>queues\<close> that \<^verbatim>\<open>process_email\<close> builds for an importer.\<close>

record queues =
  importer_queues :: "queue list"
  default_queue :: queue
  matching_queues :: "queue list"
  address_matching_queues :: "queue list"

text \<open>What \<^verbatim>\<open>object_from_message\<close> returns: \<^verbatim>\<open>True\<close> (the message is handled and is
  removed from the mailbox), \<^verbatim>\<open>False\<close> (the message stays in the mailbox) or the ticket
  (truthy: removed as well).\<close>

datatype outcome = Consume | Retain | Ingested ticket

definition STRIPPED_SUBJECT_STRINGS :: "string list" where
  "STRIPPED_SUBJECT_STRINGS = [''Re: '', ''Fw: '', ''RE: '', ''FW: '', ''Automatic reply: '']"

text \<open>Lines 611--613.\<close>

definition clean_subject :: "string \<Rightarrow> string" where
  "clean_subject subject = strip (fold delete_all STRIPPED_SUBJECT_STRINGS subject)"

text \<open>\<^verbatim>\<open>decode_unknown(charset, string)\<close>; the flag tells whether the value is already a
  \<^verbatim>\<open>str\<close>.\<close>

definition decode_unknown :: "lib \<Rightarrow> string option \<Rightarrow> bool \<Rightarrow> string \<Rightarrow> string" where
  "decode_unknown l charset is_str s =
     (if \<not> is_str then
        (case charset of
           None \<Rightarrow> bytes_to_str l ''utf-8'' s
         | Some cs \<Rightarrow> if cs = [] then bytes_to_str l ''utf-8'' s else bytes_to_str l cs s)
      else s)"

subsection \<open>The ignore list (lines 624--631)\<close>

text \<open>The rules of \<^verbatim>\<open>IgnoreEmail.objects.filter(Q(importers=importer) |
  Q(importers__isnull=True))\<close>.\<close>

definition ignore_rules :: "db \<Rightarrow> nat \<Rightarrow> ignoreemail list" where
  "ignore_rules d importer =
     filter (\<lambda>r. importer \<in> set (ie_importers r) \<or> ie_importers r = []) (ignoreemails d)"

text \<open>The two nested loops: the first rule that matches one of the addresses decides;
  the result is its \<^verbatim>\<open>keep_in_mailbox\<close> flag.\<close>

fun ignore_match :: "env \<Rightarrow> ignoreemail list \<Rightarrow> string list \<Rightarrow> bool option" where
  "ignore_match e [] addresses = None"
| "ignore_match e (r # rs) addresses =
     (if list_ex (ignore_test e (ie_pattern r)) addresses then Some (ie_keep_in_mailbox r)
      else ignore_match e rs addresses)"

subsection \<open>Routing (lines 633--658)\<close>

text \<open>
  \<^verbatim>\<open>re.match(r".*\[" + q.slug + r"-(?P<id>\d+)\]", subject)\<close>, for a slug made of letters,
  digits, hyphens and underscores (which stand for themselves in the pattern).
  \<open>tag_here\<close> matches \<^verbatim>\<open>\[slug-(\d+)\]\<close> at the head of a string and gives the digits.
  \<open>match_tracking\<close> adds the leading \<^verbatim>\<open>.*\<close>: it is greedy, so the match furthest to
  the right wins, and \<^verbatim>\<open>.\<close> does not match a line feed, so no line feed may stand
  before the tag.
\<close>

definition tag_here :: "string \<Rightarrow> string \<Rightarrow> string option" where
  "tag_here slug s =
     (let prefix = ''['' @ slug @ ''-'' in
      if startswith s prefix then
        (let rest = drop (length prefix) s;
             digits = takeWhile is_digit rest
         in if digits \<noteq> [] \<and> startswith (dropWhile is_digit rest) '']'' then Some digits
            else None)
      else None)"

fun match_tracking :: "string \<Rightarrow> string \<Rightarrow> string option" where
  "match_tracking slug [] = None"
| "match_tracking slug (c # cs) =
     (case (if c = CHR 0x0A then None else match_tracking slug cs) of
        Some i \<Rightarrow> Some i
      | None \<Rightarrow> tag_here slug (c # cs))"

text \<open>Lines 635--640: the loop over the importer's queues; the variables \<^verbatim>\<open>ticket\<close>
  and \<^verbatim>\<open>queue\<close> are set at the first queue whose pattern matches.\<close>

fun tracking_loop ::
  "string \<Rightarrow> queue list \<Rightarrow> string option \<times> queue option \<Rightarrow> string option \<times> queue option" where
  "tracking_loop subject [] tq = tq"
| "tracking_loop subject (q # qs) (ticket, queue) =
     (case match_tracking (q_slug q) subject of
        Some i \<Rightarrow>
          (if ticket = None then tracking_loop subject qs (Some i, Some q)
           else tracking_loop subject qs (ticket, queue))
      | None \<Rightarrow> tracking_loop subject qs (ticket, queue))"

text \<open>Lines 643--649: the first queue one of whose keywords is found in the subject.\<close>

fun keyword_loop :: "lib \<Rightarrow> string \<Rightarrow> queue list \<Rightarrow> queue option \<Rightarrow> queue option" where
  "keyword_loop l subject [] queue = queue"
| "keyword_loop l subject (q # qs) queue =
     (if queue = None then
        keyword_loop l subject qs
          (fold (\<lambda>m qu. if word_search l m subject then Some q else qu) (q_match_on q) queue)
      else keyword_loop l subject qs queue)"

text \<open>Lines 652--655: every queue one of whose address fragments occurs in the sender's
  address overwrites the variable.\<close>

fun address_loop :: "string \<Rightarrow> queue list \<Rightarrow> queue option \<Rightarrow> queue option" where
  "address_loop sender_lower [] queue = queue"
| "address_loop sender_lower (q # qs) queue =
     (if fold (\<lambda>a prev. prev \<or> py_in (lower a) sender_lower) (q_match_on_addresses q) False
      then address_loop sender_lower qs (Some q)
      else address_loop sender_lower qs queue)"

definition classify :: "lib \<Rightarrow> queues \<Rightarrow> string \<Rightarrow> string \<Rightarrow> string option \<times> queue" where
  "classify l qs subject sender_address =
     (case tracking_loop subject (importer_queues qs) (None, None) of
        (ticket, queue0) \<Rightarrow>
          (let queue1 = (if ticket = None then keyword_loop l subject (matching_queues qs) queue0
                         else queue0);
               queue2 = (if queue1 = None
                         then address_loop (lower sender_address) (address_matching_queues qs) queue1
                         else queue1)
           in (ticket, (case queue2 of None \<Rightarrow> default_queue qs | Some q \<Rightarrow> q))))"

subsection \<open>Forwarding loops (lines 660--676)\<close>

text \<open>Lines 670--673 for one address: the CC records of the ticket whose e-mail equals
  the address, case-insensitively, are deleted.\<close>

definition delete_cc :: "nat \<Rightarrow> string \<Rightarrow> ticketcc list \<Rightarrow> ticketcc list" where
  "delete_cc tid address ccs =
     filter (\<lambda>c. \<not> (cc_ticket c = tid \<and> map_option lower (cc_email c) = Some (lower address))) ccs"

definition is_forwarding_loop :: "message \<Rightarrow> queue \<Rightarrow> bool" where
  "is_forwarding_loop message queue =
     (m_delivered message \<noteq> None \<or> lower (snd (m_from message)) = lower (q_email_address queue))"

text \<open>Lines 666--669. The last case is not reached: under line 663 a message without
  the header has the queue's address as its sender.\<close>

definition forwarded_addresses :: "message \<Rightarrow> queue \<Rightarrow> string list" where
  "forwarded_addresses message queue =
     (if lower (snd (m_from message)) = lower (q_email_address queue) \<and> m_delivered message = None
      then map snd (m_to message)
      else
        (case m_delivered message of
           Some auto_forward \<Rightarrow> split_on CHR '','' (strip auto_forward)
         | None \<Rightarrow> []))"

definition heal_forwarding_loop :: "db \<Rightarrow> message \<Rightarrow> queue \<Rightarrow> string option \<Rightarrow> db" where
  "heal_forwarding_loop d message queue ticket =
     (case ticket of
        None \<Rightarrow> d
      | Some tid \<Rightarrow>
          (if list_ex (\<lambda>t. t_id t = py_int tid) (tickets d) then
             d\<lparr>ticketccs := fold (delete_cc (py_int tid)) (forwarded_addresses message queue)
                               (ticketccs d)\<rparr>
           else d))"


subsection \<open>The MIME walk (lines 678--772)\<close>

record walk_state =
  w_body :: "string option"
  w_full_body :: "string option"
  w_counter :: nat
  w_files :: "upload list"

text \<open>Lines 693--718: a \<^verbatim>\<open>text/plain\<close> part without a name becomes the body.\<close>

definition plain_part :: "lib \<Rightarrow> env \<Rightarrow> string option \<Rightarrow> walk_state \<Rightarrow> part \<Rightarrow> walk_state" where
  "plain_part l e ticket st part =
     (let escaped = (p_cte part = Some ''8bit'' \<and> p_charset part = Some ''utf-8'');
          raw = (if escaped then unicode_escape l (p_payload part) else p_payload part);
          body = decode_unknown l (p_charset part) escaped raw
      in if ticket = None \<and> HELPDESK_FULL_FIRST_MESSAGE_FROM_EMAIL e then
           st\<lparr>w_full_body := Some (join [CHR 0x0A, CHR 0x0A] (reply_fragments l body)),
              w_body := Some (ascii_unescape l (parse_reply l body))\<rparr>
         else
           st\<lparr>w_full_body := Some (parse_reply l body),
              w_body := Some (ascii_unescape l (parse_reply l body))\<rparr>)"

text \<open>Lines 720--745: another text part without a name is staged as the attachment
  \<^verbatim>\<open>email_html_body.html\<close>; its text becomes the full body if nothing was found before.\<close>

definition html_part :: "lib \<Rightarrow> walk_state \<Rightarrow> part \<Rightarrow> walk_state" where
  "html_part l st part =
     (let email_body = smart_text l part;
          st1 = (if \<not> truthy (w_body st) \<and> \<not> truthy (w_full_body st)
                 then st\<lparr>w_full_body := Some (html_get_text l email_body)\<rparr>
                 else st);
          email_body' = (if \<not> py_in ''<body'' email_body
                         then ''<body>'' @ email_body @ ''</body>'' else email_body);
          html = ''<html><head><meta charset='' @ [CHR 0x22] @ ''utf-8'' @ [CHR 0x22] @ '' /></head>''
                   @ email_body' @ ''</html>''
      in st1\<lparr>w_files := w_files st1 @
                [\<lparr>up_name = ''email_html_body.html'', up_content = html,
                  up_content_type = Some ''text/html''\<rparr>]\<rparr>)"

text \<open>Lines 747--770: every other part becomes an attachment. A part without a name
  gets \<^verbatim>\<open>"part-%i%s" % (counter, ext)\<close>, a named part \<^verbatim>\<open>("part-%i_" % counter) + name\<close>;
  the content type is guessed from that file name.\<close>

definition attachment_name :: "lib \<Rightarrow> nat \<Rightarrow> part \<Rightarrow> string option \<Rightarrow> string" where
  "attachment_name l counter part name =
     (if \<not> truthy name then
        ''part-'' @ str_nat counter @
          (case guess_extension l (p_maintype part @ ''/'' @ p_subtype part) of
             None \<Rightarrow> ''None''
           | Some ext \<Rightarrow> ext)
      else ''part-'' @ str_nat counter @ ''_'' @ (case name of None \<Rightarrow> [] | Some n \<Rightarrow> n))"

definition attachment_part :: "lib \<Rightarrow> walk_state \<Rightarrow> part \<Rightarrow> string option \<Rightarrow> walk_state" where
  "attachment_part l st part name =
     (let name' = attachment_name l (w_counter st) part name
      in st\<lparr>w_files := w_files st @
               [\<lparr>up_name = name', up_content = p_payload part,
                 up_content_type = guess_type l name'\<rparr>]\<rparr>)"

text \<open>Lines 687--689: the \<^verbatim>\<open>name\<close> parameter, collapsed when it is truthy.\<close>

definition part_name :: "lib \<Rightarrow> part \<Rightarrow> string option" where
  "part_name l part =
     (case p_name part of
        None \<Rightarrow> None
      | Some n \<Rightarrow> if n \<noteq> [] then Some (collapse_rfc2231_value l n) else Some n)"

text \<open>One iteration of the loop over \<^verbatim>\<open>message.walk()\<close>.\<close>

definition walk_part :: "lib \<Rightarrow> env \<Rightarrow> string option \<Rightarrow> walk_state \<Rightarrow> part \<Rightarrow> walk_state" where
  "walk_part l e ticket st part =
     (if p_maintype part = ''multipart'' then st
      else
        (let name = part_name l part;
             st' = (if p_maintype part = ''text'' \<and> name = None then
                      (if p_subtype part = ''plain'' then plain_part l e ticket st part
                       else html_part l st part)
                    else attachment_part l st part name)
         in st'\<lparr>w_counter := w_counter st' + 1\<rparr>))"

definition walk :: "lib \<Rightarrow> env \<Rightarrow> string option \<Rightarrow> part list \<Rightarrow> walk_state \<Rightarrow> walk_state" where
  "walk l e ticket parts st = fold (\<lambda>part s. walk_part l e ticket s part) parts st"

definition walk_start :: walk_state where
  "walk_start = \<lparr>w_body = None, w_full_body = None, w_counter = 0, w_files = []\<rparr>"

subsection \<open>Body fallback, archive copy, priority and payload (lines 774--815)\<close>

text \<open>Lines 774--784: the pair (body, full body) after the fallback to the
  \<^verbatim>\<open>body\<close> element of the whole message.\<close>

definition fallback_body :: "lib \<Rightarrow> message \<Rightarrow> walk_state \<Rightarrow> string \<times> string option" where
  "fallback_body l message st =
     (case w_body st of
        Some b \<Rightarrow>
          (if b \<noteq> [] then (b, w_full_body st)
           else
             (case find_body_text l message of
                Some txt \<Rightarrow> (txt, Some txt)
              | None \<Rightarrow> ([], w_full_body st)))
      | None \<Rightarrow>
          (case find_body_text l message of
             Some txt \<Rightarrow> (txt, Some txt)
           | None \<Rightarrow> ([], w_full_body st)))"

text \<open>Lines 786--797.\<close>

definition archive_files :: "lib \<Rightarrow> env \<Rightarrow> message \<Rightarrow> upload list \<Rightarrow> upload list" where
  "archive_files l e message files =
     (if HELPDESK_ALWAYS_SAVE_INCOMING_EMAIL_MESSAGE e then
        files @ [\<lparr>up_name = eml_name l, up_content = message_bytes l message,
                  up_content_type = Some ''text/plain''\<rparr>]
      else files)"

text \<open>Lines 799--802: \<^verbatim>\<open>message.get(name, '')\<close> for the two headers, and the
  intersection of the keyword set with the set of the two values.\<close>

definition high_priority_types :: "string set" where
  "high_priority_types = {''high'', ''important'', ''1'', ''urgent''}"

definition message_priority :: "message \<Rightarrow> nat" where
  "message_priority message =
     (let smtp_priority = (case m_priority message of None \<Rightarrow> [] | Some v \<Rightarrow> v);
          smtp_importance = (case m_importance message of None \<Rightarrow> [] | Some v \<Rightarrow> v)
      in if high_priority_types \<inter> {smtp_priority, smtp_importance} \<noteq> {} then 2 else 3)"

text \<open>\<^verbatim>\<open>full_body or body\<close>.\<close>

definition full_body_or :: "string option \<Rightarrow> string \<Rightarrow> string" where
  "full_body_or full_body body = (case full_body of None \<Rightarrow> body | Some fb \<Rightarrow> if fb \<noteq> [] then fb else body)"

definition build_payload ::
  "lib \<Rightarrow> env \<Rightarrow> message \<Rightarrow> string \<Rightarrow> queue \<Rightarrow> walk_state \<Rightarrow> payload" where
  "build_payload l e message subject queue st =
     (case fallback_body l message st of
        (body, full_body) \<Rightarrow>
          \<lparr>pl_body = body,
           pl_full_body = Some (full_body_or full_body body),
           pl_subject = subject,
           pl_queue = queue,
           pl_sender = m_from message,
           pl_priority = message_priority message,
           pl_files = archive_files l e message (w_files st),
           pl_cc_list = m_cc message,
           pl_to_list = m_to message\<rparr>)"

subsection \<open>The whole function\<close>

definition object_from_message ::
  "lib \<Rightarrow> env \<Rightarrow> db \<Rightarrow> nat \<Rightarrow> queues \<Rightarrow> message \<Rightarrow> (error \<times> db) + (outcome \<times> db)" where
  "object_from_message l e d importer qs message =
     (let subject = clean_subject (m_subject message);
          sender = m_from message
      in if snd sender = [] then Inr (Consume, d)
         else
           (case ignore_match e (ignore_rules d importer)
                   (map snd ([sender] @ m_to message @ m_cc message)) of
              Some keep \<Rightarrow> if keep then Inr (Retain, d) else Inr (Consume, d)
            | None \<Rightarrow>
                (case classify l qs subject (snd sender) of
                   (ticket, queue) \<Rightarrow>
                     (if is_forwarding_loop message queue then
                        Inr (Consume, heal_forwarding_loop d message queue ticket)
                      else
                        (let st = walk l e ticket (m_parts message) walk_start;
                             pl = build_payload l e message subject queue st
                         in case create_object_from_email_message e d message ticket pl (pl_files pl) of
                              Inl err \<Rightarrow> Inl err
                            | Inr (t, d') \<Rightarrow> Inr (Ingested t, d'))))))"

section \<open>A concrete installation\<close>

text \<open>One importer with two queues, two tickets of which the first was merged into the
  second, one earlier follow-up, and library functions that leave text as it is and
  know the type and extension of PDF files.\<close>

definition example_lib :: lib where
  "example_lib =
     \<lparr>collapse_rfc2231_value = (\<lambda>n. n),
      guess_extension = (\<lambda>t. if t = ''application/pdf'' then Some ''.pdf'' else None),
      guess_type = (\<lambda>n. if startswith (rev n) (rev ''.pdf'') then Some ''application/pdf'' else None),
      unicode_escape = (\<lambda>b. b),
      bytes_to_str = (\<lambda>cs b. b),
      reply_fragments = (\<lambda>b. [b]),
      parse_reply = (\<lambda>b. b),
      ascii_unescape = (\<lambda>b. b),
      smart_text = p_payload,
      html_get_text = (\<lambda>h. h),
      find_body_text = (\<lambda>m. None),
      message_bytes = (\<lambda>m. []),
      eml_name = ''original_message.eml'',
      word_search = (\<lambda>m subject. py_in (lower m) (lower subject))\<rparr>"

definition example_env :: env where
  "example_env =
     \<lparr>QUEUE_EMAIL_BOX_UPDATE_ONLY = False,
      HELPDESK_FULL_FIRST_MESSAGE_FROM_EMAIL = False,
      HELPDESK_ALWAYS_SAVE_INCOMING_EMAIL_MESSAGE = False,
      now = 5,
      users_by_email = (\<lambda>a. []),
      holds_staff_privilege = (\<lambda>u org. False),
      form_fields = (\<lambda>org. []),
      followup_ticket_nullable = False,
      valid_email = (\<lambda>a. True),
      ignore_test = (\<lambda>pattern a. pattern = a)\<rparr>"

definition support_queue :: queue where
  "support_queue =
     \<lparr>q_slug = ''support'', q_email_address = ''support@desk.example'', q_match_on = [],
      q_match_on_addresses = [], q_default_owner = None, q_organization = 1,
      q_enable_notifications_on_email_events = False\<rparr>"

definition billing_queue :: queue where
  "billing_queue =
     \<lparr>q_slug = ''billing'', q_email_address = ''billing@desk.example'',
      q_match_on = [''printer''], q_match_on_addresses = [''x.com''], q_default_owner = None,
      q_organization = 1, q_enable_notifications_on_email_events = False\<rparr>"

definition example_queues :: queues where
  "example_queues =
     \<lparr>importer_queues = [support_queue, billing_queue], default_queue = billing_queue,
      matching_queues = [billing_queue], address_matching_queues = [billing_queue]\<rparr>"

definition merged_ticket :: ticket where
  "merged_ticket =
     \<lparr>t_id = 1, t_title = ''printer broken'', t_queue = support_queue, t_contact_name = None,
      t_contact_email = None, t_submitter_email = ''user@x.com'', t_created = 1,
      t_description = ''it is broken'', t_priority = 3, t_form_org = 1, t_assigned_to = None,
      t_status = CLOSED_STATUS, t_merged_to = Some 2\<rparr>"

definition target_ticket :: ticket where
  "target_ticket =
     \<lparr>t_id = 2, t_title = ''all printers broken'', t_queue = support_queue,
      t_contact_name = None, t_contact_email = None, t_submitter_email = ''user@x.com'',
      t_created = 2, t_description = ''they are broken'', t_priority = 3, t_form_org = 1,
      t_assigned_to = None, t_status = CLOSED_STATUS, t_merged_to = None\<rparr>"

definition first_followup :: followup where
  "first_followup =
     \<lparr>f_id = 1, f_ticket = Some 1, f_title = ''E-Mail Received from user@x.com'', f_date = 1,
      f_public = True, f_comment = ''it is broken'', f_message_id = ''m1@x.com'',
      f_new_status = None\<rparr>"

definition example_db :: db where
  "example_db =
     \<lparr>tickets = [merged_ticket, target_ticket], followups = [first_followup],
      ticketccs = [\<lparr>cc_ticket = 2, cc_user = None, cc_email = Some ''Support@desk.example''\<rparr>,
                   \<lparr>cc_ticket = 2, cc_user = None, cc_email = Some ''boss@x.com''\<rparr>],
      ignoreemails = [\<lparr>ie_importers = [], ie_pattern = ''spam@evil.com'', ie_keep_in_mailbox = True\<rparr>],
      attachments = [], outbox = []\<rparr>"

definition plain_text_part :: part where
  "plain_text_part =
     \<lparr>p_maintype = ''text'', p_subtype = ''plain'', p_name = None, p_payload = ''still broken'',
      p_cte = None, p_charset = None\<rparr>"

text \<open>A part declared as \<^verbatim>\<open>application/octet-stream; name="invoice.pdf"\<close>.\<close>

definition invoice_part :: part where
  "invoice_part =
     \<lparr>p_maintype = ''application'', p_subtype = ''octet-stream'', p_name = Some ''invoice.pdf'',
      p_payload = ''%PDF-1.4'', p_cte = Some ''base64'', p_charset = None\<rparr>"

text \<open>A message with neither a tracking tag nor an \<^verbatim>\<open>In-Reply-To\<close> header.\<close>

definition plain_message :: message where
  "plain_message =
     \<lparr>m_subject = ''toner is empty'', m_from = (''A User'', ''user@y.org''),
      m_to = [([], ''support@desk.example'')], m_cc = [], m_message_id = ''m2@y.org'',
      m_in_reply_to = [], m_delivered = None, m_priority = None, m_importance = None,
      m_auto_submitted = None, m_auto_response_suppress = None, m_list_id = None,
      m_list_unsubscribe = None, m_parts = [plain_text_part]\<rparr>"

text \<open>A reply from the submitter that carries the tracking tag of the second ticket
  and no \<^verbatim>\<open>In-Reply-To\<close> header, and the same reply sent as an answer to the first
  follow-up (which belongs to the merged ticket).\<close>

definition tagged_message :: message where
  "tagged_message =
     plain_message\<lparr>m_subject := ''Re: [support-2] all printers broken'',
                    m_from := (''A User'', ''user@x.com''), m_message_id := ''m3@x.com''\<rparr>"

definition reply_message :: message where
  "reply_message = tagged_message\<lparr>m_subject := ''Re: printer broken'', m_in_reply_to := ''m1@x.com''\<rparr>"

definition example_payload :: payload where
  "example_payload =
     \<lparr>pl_body = ''still broken'', pl_full_body = Some ''still broken'',
      pl_subject = ''[support-2] all printers broken'', pl_queue = support_queue,
      pl_sender = (''A User'', ''user@x.com''), pl_priority = 3, pl_files = [],
      pl_cc_list = [], pl_to_list = [([], ''support@desk.example'')]\<rparr>"

text \<open>Further messages: one whose \<^verbatim>\<open>From\<close> header gives no address and which is
  addressed to the ignored address; one from the ignored address; the latter with the
  loop-marker header; one sent by the support queue's own address with the tracking tag
  of the second ticket; and one with a named PDF part.\<close>

definition unparsable_sender_message :: message where
  "unparsable_sender_message =
     plain_message\<lparr>m_from := (''Unknown Sender'', []), m_to := [([], ''spam@evil.com'')]\<rparr>"

definition spam_message :: message where
  "spam_message = plain_message\<lparr>m_from := (''Spammer'', ''spam@evil.com'')\<rparr>"

definition forwarded_spam_message :: message where
  "forwarded_spam_message = spam_message\<lparr>m_delivered := Some ''boss@x.com''\<rparr>"

definition loop_message :: message where
  "loop_message =
     plain_message\<lparr>m_from := (''Helpdesk'', ''support@desk.example''),
                    m_subject := ''Fw: [support-2] all printers broken'',
                    m_to := [([], ''SUPPORT@desk.example''), ([], ''user@x.com'')]\<rparr>"

definition invoice_message :: message where
  "invoice_message = plain_message\<lparr>m_parts := [plain_text_part, invoice_part]\<rparr>"

text \<open>A staff installation: two accounts that both hold staff privilege, a ticket
  submitted by the one and assigned to the other, and the assignee's answer by e-mail.\<close>

definition agent :: user where
  "agent =
     \<lparr>user_pk = 7, user_email = ''agent@desk.example'', user_full_name = ''An Agent'',
      user_username = ''agent''\<rparr>"

definition colleague :: user where
  "colleague =
     \<lparr>user_pk = 8, user_email = ''colleague@desk.example'', user_full_name = ''A Colleague'',
      user_username = ''colleague''\<rparr>"

definition staff_env :: env where
  "staff_env =
     example_env\<lparr>users_by_email :=
                    (\<lambda>a. if a = ''agent@desk.example'' then [agent]
                         else if a = ''colleague@desk.example'' then [colleague]
                         else []),
                  holds_staff_privilege := (\<lambda>u org. True)\<rparr>"

definition internal_ticket :: ticket where
  "internal_ticket =
     \<lparr>t_id = 3, t_title = ''wiki is down'', t_queue = support_queue, t_contact_name = None,
      t_contact_email = None, t_submitter_email = ''colleague@desk.example'', t_created = 3,
      t_description = ''no page loads'', t_priority = 3, t_form_org = 1,
      t_assigned_to = Some agent, t_status = OPEN_STATUS, t_merged_to = None\<rparr>"

definition staff_db :: db where
  "staff_db = example_db\<lparr>tickets := [merged_ticket, target_ticket, internal_ticket]\<rparr>"

definition agent_message :: message where
  "agent_message =
     plain_message\<lparr>m_subject := ''Re: [support-3] wiki is down'',
                    m_from := (''An Agent'', ''agent@desk.example''),
                    m_message_id := ''m4@desk.example''\<rparr>"

section \<open>The transition table of the specification\<close>

text \<open>
  The status transition in the words of the specification (section 4.5, step 4), from
  whether the submitter is staff, whether the updater differs from the current assignee,
  whether the updater is staff, and the current status: if (submitter is staff and
  updater differs from current assignee) or updater is not staff, a status in
  CLOSED, RESOLVED, DUPLICATE becomes REOPENED and REPLIED becomes OPEN; else a status not
  in CLOSED, RESOLVED, DUPLICATE becomes REPLIED; no other status changes.
\<close>

definition spec_status_transition :: "bool \<Rightarrow> bool \<Rightarrow> bool \<Rightarrow> status \<Rightarrow> status" where
  "spec_status_transition submitter_is_staff updater_differs updater_is_staff s =
     (if (submitter_is_staff \<and> updater_differs) \<or> \<not> updater_is_staff then
        (if s \<in> {CLOSED_STATUS, RESOLVED_STATUS, DUPLICATE_STATUS} then REOPENED_STATUS
         else if s = REPLIED_STATUS then OPEN_STATUS
         else s)
      else
        (if s \<notin> {CLOSED_STATUS, RESOLVED_STATUS, DUPLICATE_STATUS} then REPLIED_STATUS
         else s))"

section \<open>Properties of the status update\<close>

lemma public_update_status [simp]:
  "public_update e (t\<lparr>t_status := s\<rparr>) sender = public_update e t sender"
  by (simp add: public_update_def)

lemma apply_status_update_total:
  "\<exists>t' f'. apply_status_update e t f sender = Inr (t', f')"
  unfolding apply_status_update_def Let_def
  by (cases "first_user e sender") (auto simp: is_helpdesk_staff_def)

text \<open>
  Claim C5. The status update of lines 512--530 is idempotent. For every ticket (so for
  every starting status), follow-up and sender, the update returns an updated ticket,
  and the same update applied to that ticket with any further follow-up returns the
  very same ticket: the second application changes no status. In particular, when the
  update is a public one (line 512 holds) and the ticket is CLOSED, the first
  application leaves it REOPENED, and so does every replay.
\<close>

theorem status_update_idempotent:
  "\<exists>t1 f1 g1. apply_status_update e t f sender = Inr (t1, f1)
     \<and> apply_status_update e t1 g sender = Inr (t1, g1)
     \<and> (public_update e t sender \<and> t_status t = CLOSED_STATUS \<longrightarrow> t_status t1 = REOPENED_STATUS)"
  unfolding apply_status_update_def Let_def
  apply (cases "first_user e sender")
   apply (cases "t_status t"; auto simp: is_helpdesk_staff_def)
  apply (cases "t_status t"; auto simp: is_helpdesk_staff_def)
  done

theorem status_update_idempotent_witness:
  "\<exists>t1 f1 g1. apply_status_update example_env target_ticket first_followup ''user@y.org'' = Inr (t1, f1)
     \<and> apply_status_update example_env t1 first_followup ''user@y.org'' = Inr (t1, g1)
     \<and> public_update example_env target_ticket ''user@y.org''
     \<and> t_status target_ticket = CLOSED_STATUS
     \<and> t_status t1 = REOPENED_STATUS"
proof -
  have pub: "public_update example_env target_ticket ''user@y.org''"
    by (simp add: public_update_def example_env_def first_user_def is_helpdesk_staff_def)
  have closed: "t_status target_ticket = CLOSED_STATUS"
    by (simp add: target_ticket_def)
  from status_update_idempotent [of example_env target_ticket first_followup "''user@y.org''" first_followup]
  obtain t1 f1 g1 where
    "apply_status_update example_env target_ticket first_followup ''user@y.org'' = Inr (t1, f1)"
    "apply_status_update example_env t1 first_followup ''user@y.org'' = Inr (t1, g1)"
    "public_update example_env target_ticket ''user@y.org'' \<and> t_status target_ticket = CLOSED_STATUS
       \<longrightarrow> t_status t1 = REOPENED_STATUS"
    by blast
  with pub closed show ?thesis by blast
qed

section \<open>Properties of the priority classification\<close>

text \<open>
  Claim C7, as stated, fails: a header value that contains a keyword without being equal
  to it gives normal priority. The value \<^verbatim>\<open>non-urgent\<close> of the \<^verbatim>\<open>Priority\<close> header
  contains the keyword \<^verbatim>\<open>urgent\<close>, and the message gets priority 3 (normal), not 2 (high).
\<close>

theorem priority_substring_counterexample:
  "py_in ''urgent'' ''non-urgent''
   \<and> message_priority (plain_message\<lparr>m_priority := Some ''non-urgent''\<rparr>) = 3"
  by (simp add: message_priority_def high_priority_types_def Let_def plain_message_def)

text \<open>
  Claim C7, amended. For every message, the priority is 2 (high) if the value of the
  \<^verbatim>\<open>Priority\<close> header or of the \<^verbatim>\<open>Importance\<close> header (the empty string when the
  header is absent) is equal, case-sensitively, to one of the keywords \<^verbatim>\<open>high\<close>,
  \<^verbatim>\<open>important\<close>, \<^verbatim>\<open>1\<close>, \<^verbatim>\<open>urgent\<close>; otherwise it is 3 (normal).
\<close>

theorem priority_exact_keyword:
  "message_priority message =
     (if (case m_priority message of None \<Rightarrow> [] | Some v \<Rightarrow> v)
            \<in> {''high'', ''important'', ''1'', ''urgent''}
         \<or> (case m_importance message of None \<Rightarrow> [] | Some v \<Rightarrow> v)
            \<in> {''high'', ''important'', ''1'', ''urgent''}
      then 2 else 3)"
  by (simp add: message_priority_def high_priority_types_def Let_def)

section \<open>What the later steps leave unchanged\<close>

lemma final_db_simps [simp]:
  "final_db (Inl (err, d)) = d"
  "final_db (Inr (x, d)) = d"
  by (simp_all add: final_db_def)

lemma create_ticket_cc_frame:
  "tickets (case create_ticket_cc e d t ccs of Inl (err, d') \<Rightarrow> d' | Inr d' \<Rightarrow> d') = tickets d
   \<and> followups (case create_ticket_cc e d t ccs of Inl (err, d') \<Rightarrow> d' | Inr d' \<Rightarrow> d') = followups d
   \<and> attachments (case create_ticket_cc e d t ccs of Inl (err, d') \<Rightarrow> d' | Inr d' \<Rightarrow> d') = attachments d"
proof (induction e d t ccs rule: create_ticket_cc.induct)
  case (1 e d t)
  then show ?case by simp
next
  case (2 e d t cced_name cced_email rest)
  then show ?case
    by (auto simp: Let_def subscribe_to_ticket_updates_def split: list.splits option.splits if_splits)
qed

lemma notify_frame:
  "tickets (notify d message queue t new) = tickets d"
  "followups (notify d message queue t new) = followups d"
  "attachments (notify d message queue t new) = attachments d"
  "ticketccs (notify d message queue t new) = ticketccs d"
  by (simp_all add: notify_def send_ticket_mail_def Let_def)

lemma attach_subscribe_notify_frame:
  "tickets (final_db (attach_subscribe_notify e d message pl files t f new)) = tickets d"
  "followups (final_db (attach_subscribe_notify e d message pl files t f new)) = followups d"
  using create_ticket_cc_frame [of e "process_attachments d f files" t "pl_to_list pl @ pl_cc_list pl"]
  by (auto simp: attach_subscribe_notify_def notify_frame process_attachments_def
           split: sum.splits prod.splits)

section \<open>The status transition of an update\<close>

lemma apply_status_update_status:
  "\<exists>f'. apply_status_update e t f sender =
     Inr (t\<lparr>t_status :=
              spec_status_transition
                (is_helpdesk_staff e (first_user e (t_submitter_email t)) (t_form_org t))
                (\<not> py_is (first_user e sender) (t_assigned_to t))
                (is_helpdesk_staff e (first_user e sender) (t_form_org t))
                (t_status t)\<rparr>, f')"
  unfolding apply_status_update_def public_update_def spec_status_transition_def Let_def
  by (cases "first_user e sender") (auto simp: is_helpdesk_staff_def)

lemma create_object_existing:
  assumes "resolve_ticket d (m_in_reply_to message) ticket_id = Inr (Some t)"
      and "apply_status_update e t
             \<lparr>f_id = fresh_id (map f_id (followups d)), f_ticket = Some (t_id t),
              f_title = take 200 (''E-Mail Received from '' @ snd (pl_sender pl)),
              f_date = now e, f_public = True,
              f_comment = or_empty (case pl_full_body pl of None \<Rightarrow> pl_body pl | Some fb \<Rightarrow> fb),
              f_message_id = m_message_id message, f_new_status = None\<rparr> (snd (pl_sender pl)) = Inr (t', f')"
  shows "create_object_from_email_message e d message ticket_id pl files =
     attach_subscribe_notify e
       (save_followup (save_ticket (d\<lparr>followups := followups d @ [\<lparr>f_id = fresh_id (map f_id (followups d)), f_ticket = Some (t_id t),
              f_title = take 200 (''E-Mail Received from '' @ snd (pl_sender pl)),
              f_date = now e, f_public = True,
              f_comment = or_empty (case pl_full_body pl of None \<Rightarrow> pl_body pl | Some fb \<Rightarrow> fb),
              f_message_id = m_message_id message, f_new_status = None\<rparr>]\<rparr>) t') f')
       message pl files t' f' False"
  using assms
  by (simp add: create_object_from_email_message_def ensure_ticket_def create_followup_def
        update_ticket_status_def Let_def)

text \<open>
  What an update of an existing ticket leaves in the table of tickets: the ticket found
  gets the status of the table, where "the updater differs from the assignee" is the
  test \<^verbatim>\<open>updater is not ticket.assigned_to\<close> as the source writes it; no other row
  changes.
\<close>

lemma update_status_with_identity_test:
  assumes "resolve_ticket d (m_in_reply_to message) ticket_id = Inr (Some t)"
  shows "tickets (final_db (create_object_from_email_message e d message ticket_id pl files)) =
     map (\<lambda>x. if t_id x = t_id t then
                 t\<lparr>t_status :=
                     spec_status_transition
                       (is_helpdesk_staff e (first_user e (t_submitter_email t)) (t_form_org t))
                       (\<not> py_is (first_user e (snd (pl_sender pl))) (t_assigned_to t))
                       (is_helpdesk_staff e (first_user e (snd (pl_sender pl))) (t_form_org t))
                       (t_status t)\<rparr>
               else x) (tickets d)"
proof -
  let ?f = "\<lparr>f_id = fresh_id (map f_id (followups d)), f_ticket = Some (t_id t),
              f_title = take 200 (''E-Mail Received from '' @ snd (pl_sender pl)),
              f_date = now e, f_public = True,
              f_comment = or_empty (case pl_full_body pl of None \<Rightarrow> pl_body pl | Some fb \<Rightarrow> fb),
              f_message_id = m_message_id message, f_new_status = None\<rparr>"
  from apply_status_update_status [of e t ?f "snd (pl_sender pl)"]
  obtain f' where upd: "apply_status_update e t ?f (snd (pl_sender pl)) =
     Inr (t\<lparr>t_status :=
              spec_status_transition
                (is_helpdesk_staff e (first_user e (t_submitter_email t)) (t_form_org t))
                (\<not> py_is (first_user e (snd (pl_sender pl))) (t_assigned_to t))
                (is_helpdesk_staff e (first_user e (snd (pl_sender pl))) (t_form_org t))
                (t_status t)\<rparr>, f')"
    by blast
  show ?thesis
    unfolding create_object_existing [OF assms upd] attach_subscribe_notify_frame
    by (simp add: save_ticket_def save_followup_def)
qed

text \<open>That test does not compare accounts: whenever an account with the sender's address
  exists, the updater counts as different from the assignee.\<close>

lemma found_updater_always_differs:
  "first_user e sender = Some u \<Longrightarrow> \<not> py_is (first_user e sender) assignee"
  by (simp add: py_is_def)

text \<open>
  Claim C4 says that an update by a staff updater who does not differ from the current
  assignee takes the second branch: every status but CLOSED, RESOLVED and DUPLICATE
  becomes REPLIED. The source compares the two objects with \<^verbatim>\<open>is not\<close>, so the
  assignee's own answer to a ticket that a staff member submitted counts as a public
  update. Here the account of the sender is the assignee of ticket 3, both the sender
  and the submitter are staff, and the ticket is OPEN: the table of the specification
  gives REPLIED, the run leaves the ticket OPEN; and from REPLIED the update goes back
  to OPEN.
\<close>

theorem assignee_answer_is_public_update:
  "first_user staff_env (snd (m_from agent_message)) = Some agent
   \<and> t_assigned_to internal_ticket = Some agent
   \<and> is_helpdesk_staff staff_env (first_user staff_env (snd (m_from agent_message)))
         (t_form_org internal_ticket)
   \<and> is_helpdesk_staff staff_env (first_user staff_env (t_submitter_email internal_ticket))
         (t_form_org internal_ticket)
   \<and> t_status internal_ticket = OPEN_STATUS
   \<and> spec_status_transition True False True OPEN_STATUS = REPLIED_STATUS
   \<and> tickets (final_db (object_from_message example_lib staff_env staff_db 0 example_queues
                             agent_message))
       = [merged_ticket, target_ticket, internal_ticket]
   \<and> spec_status_transition True False True REPLIED_STATUS = REPLIED_STATUS
   \<and> apply_status_update staff_env (internal_ticket\<lparr>t_status := REPLIED_STATUS\<rparr>) first_followup
         ''agent@desk.example''
       = Inr (internal_ticket\<lparr>t_status := OPEN_STATUS\<rparr>,
              first_followup\<lparr>f_new_status := Some OPEN_STATUS\<rparr>)"
  by code_simp

section \<open>The follow-up of an inbound message\<close>

lemma fresh_id_greater: "x \<in> set ids \<Longrightarrow> x < fresh_id ids"
proof -
  assume "x \<in> set ids"
  then have "x \<le> Max (set (0 # ids))" by (intro Max_ge) auto
  then show ?thesis by (simp add: fresh_id_def Max.set_eq_fold del: set_simps)
qed

lemma save_new_followup:
  assumes "f_id f' = fresh_id (map f_id fs)"
  shows "map (\<lambda>x. if f_id x = f_id f' then f' else x) (fs @ [f'']) =
         fs @ [if f_id f'' = f_id f' then f' else f'']"
proof -
  have "\<And>x. x \<in> set fs \<Longrightarrow> f_id x \<noteq> f_id f'"
    using fresh_id_greater [of _ "map f_id fs"] assms by fastforce
  then have "map (\<lambda>x. if f_id x = f_id f' then f' else x) fs = fs"
    by (induction fs) auto
  then show ?thesis by simp
qed

lemma apply_status_update_followup:
  "apply_status_update e t f sender = Inr (t', f') \<Longrightarrow>
     f_id f' = f_id f \<and> f_public f' = f_public f \<and> f_comment f' = f_comment f
     \<and> f_message_id f' = f_message_id f \<and> f_ticket f' = f_ticket f"
  unfolding apply_status_update_def Let_def
  by (auto split: if_splits option.splits)

lemma ensure_ticket_followups:
  "ensure_ticket e d pl found = (ticket, new, d1) \<Longrightarrow> followups d1 = followups d"
  by (auto simp: ensure_ticket_def Let_def split: option.splits if_splits)

lemma create_object_followups:
  "followups (final_db (create_object_from_email_message e d message tid pl files)) = followups d
   \<or> (\<exists>f. followups (final_db (create_object_from_email_message e d message tid pl files)) = followups d @ [f]
        \<and> f_public f
        \<and> f_comment f = (case pl_full_body pl of None \<Rightarrow> pl_body pl | Some fb \<Rightarrow> fb)
        \<and> f_message_id f = m_message_id message)"
proof (cases "resolve_ticket d (m_in_reply_to message) tid")
  case (Inl err)
  then show ?thesis by (simp add: create_object_from_email_message_def)
next
  case (Inr found)
  obtain ticket new d1 where ens: "ensure_ticket e d pl found = (ticket, new, d1)"
    by (cases "ensure_ticket e d pl found") auto
  note fu1 = ensure_ticket_followups [OF ens]
  show ?thesis
  proof (cases "create_followup e d1 ticket pl (m_message_id message)")
    case (Inl err)
    then show ?thesis using Inr ens fu1
      by (simp add: create_object_from_email_message_def)
  next
    case (Inr fd)
    obtain f d2 where fd: "fd = (f, d2)" by (cases fd)
    from Inr fd have f: "f_public f" "f_comment f = (case pl_full_body pl of None \<Rightarrow> pl_body pl | Some fb \<Rightarrow> fb)"
       "f_message_id f = m_message_id message" "f_id f = fresh_id (map f_id (followups d1))"
       and d2: "followups d2 = followups d1 @ [f]"
      by (auto simp: create_followup_def Let_def or_empty_def split: if_splits)
    show ?thesis
    proof (cases new)
      case True
      then show ?thesis
        using \<open>resolve_ticket d (m_in_reply_to message) tid = Inr found\<close> ens Inr fd f d2 fu1
        by (cases ticket)
           (simp_all add: create_object_from_email_message_def attach_subscribe_notify_frame)
    next
      case False
      show ?thesis
      proof (cases "update_ticket_status e d2 ticket f (snd (pl_sender pl))")
        case (Inl err)
        then show ?thesis
          using \<open>resolve_ticket d (m_in_reply_to message) tid = Inr found\<close> ens Inr fd f d2 fu1 False
          by (simp add: create_object_from_email_message_def)
      next
        case (Inr r)
        obtain t' f' d3 where r: "r = (t', f', d3)" by (cases r)
        from Inr r obtain t where "ticket = Some t" and app: "apply_status_update e t f (snd (pl_sender pl)) = Inr (t', f')"
          and d3: "d3 = save_followup (save_ticket d2 t') f'"
          by (auto simp: update_ticket_status_def split: option.splits sum.splits)
        note same = apply_status_update_followup [OF app]
        have "followups d3 = followups d1 @ [f']"
          using d3 d2 same f(4) save_new_followup [of f' "followups d1" f]
          by (simp add: save_followup_def save_ticket_def)
        then show ?thesis
          using \<open>resolve_ticket d (m_in_reply_to message) tid = Inr found\<close> ens
            \<open>create_followup e d1 ticket pl (m_message_id message) = Inr fd\<close> fd f same fu1 False Inr r
          by (simp add: create_object_from_email_message_def attach_subscribe_notify_frame)
      qed
    qed
  qed
qed

lemma heal_frame:
  "tickets (heal_forwarding_loop d message queue ticket) = tickets d"
  "followups (heal_forwarding_loop d message queue ticket) = followups d"
  by (simp_all add: heal_forwarding_loop_def split: option.splits)

lemma final_db_map:
  "final_db (case r of Inl err \<Rightarrow> Inl err | Inr (t, d') \<Rightarrow> Inr (g t, d')) = final_db r"
  by (auto simp: final_db_def split: sum.splits prod.splits)

lemma final_db_object_from_message:
  assumes "classify l qs (clean_subject (m_subject message)) (snd (m_from message)) = (ticket, queue)"
  shows "final_db (object_from_message l e d importer qs message) = d
      \<or> final_db (object_from_message l e d importer qs message) = heal_forwarding_loop d message queue ticket
      \<or> final_db (object_from_message l e d importer qs message) =
          final_db (create_object_from_email_message e d message ticket
             (build_payload l e message (clean_subject (m_subject message)) queue
                (walk l e ticket (m_parts message) walk_start))
             (pl_files (build_payload l e message (clean_subject (m_subject message)) queue
                (walk l e ticket (m_parts message) walk_start))))"
  unfolding object_from_message_def Let_def assms
  by (simp add: final_db_map split: option.splits)

text \<open>
  Claim C10. Every run of \<^verbatim>\<open>object_from_message\<close> on an inbound message, whether it
  returns or raises, leaves the follow-ups as they were or adds exactly one follow-up;
  that follow-up is public, its comment is a string made from the bodies the message
  gave (the full body when one was extracted and is not empty, otherwise the plain
  body, which is the empty string when none was found), and its message id is the
  address of the \<^verbatim>\<open>Message-Id\<close> header.
\<close>

theorem followup_public_comment_message_id:
  "followups (final_db (object_from_message l e d importer qs message)) = followups d
   \<or> (\<exists>f. followups (final_db (object_from_message l e d importer qs message)) = followups d @ [f]
        \<and> f_public f
        \<and> f_comment f =
            (case fallback_body l message
                    (walk l e (fst (classify l qs (clean_subject (m_subject message)) (snd (m_from message))))
                       (m_parts message) walk_start) of
               (body, full_body) \<Rightarrow>
                 (case full_body of
                    Some fb \<Rightarrow> if fb \<noteq> [] then fb else body
                  | None \<Rightarrow> body))
        \<and> f_message_id f = m_message_id message)"
proof -
  obtain ticket queue where cl: "classify l qs (clean_subject (m_subject message)) (snd (m_from message)) = (ticket, queue)"
    by (cases "classify l qs (clean_subject (m_subject message)) (snd (m_from message))")
  let ?st = "walk l e ticket (m_parts message) walk_start"
  let ?pl = "build_payload l e message (clean_subject (m_subject message)) queue ?st"
  obtain body full_body where fb: "fallback_body l message ?st = (body, full_body)"
    by (cases "fallback_body l message ?st")
  have pl: "(case pl_full_body ?pl of None \<Rightarrow> pl_body ?pl | Some fb \<Rightarrow> fb) =
       (case full_body of Some fb \<Rightarrow> if fb \<noteq> [] then fb else body | None \<Rightarrow> body)"
    by (simp add: build_payload_def fb full_body_or_def)
  show ?thesis
    using create_object_followups [of e d message ticket ?pl "pl_files ?pl"]
      final_db_object_from_message [OF cl, of e d importer]
    by (auto simp: heal_frame cl fb pl)
qed

lemma plain_run:
  "followups (final_db (object_from_message example_lib example_env example_db 0 example_queues plain_message))
     = [first_followup, 
        \<lparr>f_id = 2, f_ticket = Some 3, f_title = ''E-Mail Received from user@y.org'', f_date = 5,
         f_public = True, f_comment = ''still broken'', f_message_id = ''m2@y.org'', f_new_status = None\<rparr>]"
  by code_simp

theorem followup_public_comment_message_id_witness:
  "\<exists>f. followups (final_db (object_from_message example_lib example_env example_db 0 example_queues plain_message))
         = followups example_db @ [f] \<and> f_public f \<and> f_comment f = ''still broken''
         \<and> f_message_id f = ''m2@y.org''"
  using followup_public_comment_message_id [of example_lib example_env example_db 0 example_queues plain_message]
  unfolding plain_run
  by (simp add: example_db_def plain_message_def)

section \<open>Update-only mode\<close>

text \<open>With update-only mode on and no ticket found, the function never returns a
  value, and it creates no ticket.\<close>

lemma update_only_unresolved_raises:
  assumes "QUEUE_EMAIL_BOX_UPDATE_ONLY e"
      and "resolve_ticket d (m_in_reply_to message) ticket_id = Inr None"
  shows "\<exists>err d'. create_object_from_email_message e d message ticket_id pl files = Inl (err, d')
           \<and> tickets d' = tickets d"
  using assms
  by (auto simp: create_object_from_email_message_def ensure_ticket_def create_followup_def
        update_ticket_status_def Let_def split: sum.splits)

text \<open>
  Claim C1 says that with update-only mode on and no ticket found the message is a
  no-op success: no ticket, no follow-up. The source does not return there: it goes on
  to \<^verbatim>\<open>FollowUp.objects.create(ticket=None, ...)\<close> and to \<^verbatim>\<open>ticket.submitter_email\<close>.
  On the message without tag and without \<^verbatim>\<open>In-Reply-To\<close>, with update-only mode on,
  the run raises: \<^verbatim>\<open>IntegrityError\<close> where the schema requires a ticket, and otherwise
  \<^verbatim>\<open>AttributeError\<close> after a follow-up without ticket has been stored.
\<close>

theorem update_only_unmatched_message_raises:
  "object_from_message example_lib (example_env\<lparr>QUEUE_EMAIL_BOX_UPDATE_ONLY := True\<rparr>) example_db 0
      example_queues plain_message
     = Inl (IntegrityError, example_db)
   \<and> object_from_message example_lib
        (example_env\<lparr>QUEUE_EMAIL_BOX_UPDATE_ONLY := True, followup_ticket_nullable := True\<rparr>)
        example_db 0 example_queues plain_message
     = Inl (AttributeError,
            example_db\<lparr>followups := followups example_db @
              [\<lparr>f_id = 2, f_ticket = None, f_title = ''E-Mail Received from user@y.org'',
                f_date = 5, f_public = True, f_comment = ''still broken'',
                f_message_id = ''m2@y.org'', f_new_status = None\<rparr>]\<rparr>)"
  by code_simp

section \<open>Merged tickets\<close>

text \<open>The two ways to a ticket: the \<^verbatim>\<open>In-Reply-To\<close> path gives the ticket of the
  earlier follow-up as it is; the tracking-id path replaces a merged ticket by its
  merge target.\<close>

lemma in_reply_to_ignores_merge:
  assumes "in_reply_to \<noteq> []"
      and "followup_for_message_id d in_reply_to = Some previous_followup"
      and "f_ticket previous_followup = Some n"
      and "get_ticket d n = Some t"
  shows "resolve_ticket d in_reply_to ticket_id = Inr (Some t)"
  using assms by (simp add: resolve_ticket_def)

lemma tracking_id_follows_merge:
  assumes "in_reply_to = [] \<or> followup_for_message_id d in_reply_to = None"
      and "get_ticket d (py_int tid) = Some t"
      and "t_merged_to t = Some target"
      and "get_ticket d target = Some t'"
  shows "resolve_ticket d in_reply_to (Some tid) = Inr (Some t')"
  using assms by (auto simp: resolve_ticket_def)

text \<open>
  Claim C2 says that a message resolved to a merged ticket is applied to the merge
  target on both paths. On the \<^verbatim>\<open>In-Reply-To\<close> path the source does not look at
  \<^verbatim>\<open>merged_to\<close>: the reply to the follow-up of ticket 1, which was merged into ticket 2,
  reopens ticket 1, attaches the new follow-up to ticket 1 and notifies for ticket 1;
  ticket 2 stays as it was.
\<close>

theorem reply_to_merged_ticket_updates_it:
  "t_merged_to merged_ticket = Some (t_id target_ticket)
   \<and> object_from_message example_lib example_env example_db 0 example_queues reply_message
       = Inr (Ingested (merged_ticket\<lparr>t_status := REOPENED_STATUS\<rparr>),
              final_db (object_from_message example_lib example_env example_db 0 example_queues reply_message))
   \<and> tickets (final_db (object_from_message example_lib example_env example_db 0 example_queues reply_message))
       = [merged_ticket\<lparr>t_status := REOPENED_STATUS\<rparr>, target_ticket]
   \<and> map f_ticket (followups (final_db
         (object_from_message example_lib example_env example_db 0 example_queues reply_message)))
       = [Some (t_id merged_ticket), Some (t_id merged_ticket)]
   \<and> map mail_ticket (outbox (final_db
         (object_from_message example_lib example_env example_db 0 example_queues reply_message)))
       = [t_id merged_ticket]"
  by code_simp

text \<open>The same reply with the tracking tag of ticket 1 and no \<^verbatim>\<open>In-Reply-To\<close> header
  is applied to ticket 2.\<close>

lemma tagged_reply_updates_merge_target:
  "tickets (final_db (object_from_message example_lib example_env example_db 0 example_queues
      (reply_message\<lparr>m_in_reply_to := [], m_subject := ''Re: [support-1] printer broken''\<rparr>)))
       = [merged_ticket, target_ticket\<lparr>t_status := REOPENED_STATUS\<rparr>]"
  by code_simp

section \<open>The ignore list\<close>

lemma ignore_match_first:
  assumes "list_all (\<lambda>r'. \<not> list_ex (ignore_test e (ie_pattern r')) addresses) earlier"
      and "list_ex (ignore_test e (ie_pattern r)) addresses"
  shows "ignore_match e (earlier @ r # later) addresses = Some (ie_keep_in_mailbox r)"
  using assms by (induction earlier) auto

text \<open>
  Claim C8, as stated, fails for a message whose sender cannot be parsed: the check of
  line 616 comes first and consumes the message. Here the rule for \<^verbatim>\<open>spam@evil.com\<close>,
  whose keep-in-mailbox flag is set, matches the \<^verbatim>\<open>To\<close> address, yet the outcome is
  Consume, not Retain.
\<close>

theorem ignore_list_unparsable_sender_counterexample:
  "ignore_match example_env (ignore_rules example_db 0)
      (map snd ([m_from unparsable_sender_message] @ m_to unparsable_sender_message
                 @ m_cc unparsable_sender_message)) = Some True
   \<and> object_from_message example_lib example_env example_db 0 example_queues unparsable_sender_message
       = Inr (Consume, example_db)"
  by code_simp

text \<open>
  Claim C8, amended. For every message whose sender address is not empty: if some
  IgnoreEmail rule scoped to the importer (or to none) matches the sender address or a
  \<^verbatim>\<open>To\<close>/\<^verbatim>\<open>Cc\<close> address, then the first such rule \<open>r\<close>, in the order of the rules,
  decides: the outcome is Retain when its keep-in-mailbox flag is set and Consume
  otherwise, and the database is left as it was (no ticket is created).
\<close>

theorem ignore_list_first_rule_decides:
  assumes "snd (m_from message) \<noteq> []"
      and "ignore_rules d importer = earlier @ r # later"
      and "list_all (\<lambda>r'. \<not> list_ex (ignore_test e (ie_pattern r'))
                              (map snd ([m_from message] @ m_to message @ m_cc message))) earlier"
      and "list_ex (ignore_test e (ie_pattern r))
                   (map snd ([m_from message] @ m_to message @ m_cc message))"
  shows "object_from_message l e d importer qs message =
           Inr (if ie_keep_in_mailbox r then Retain else Consume, d)"
  using assms(1) ignore_match_first [OF assms(3) assms(4), of later]
  unfolding object_from_message_def Let_def assms(2)
  by simp

theorem ignore_list_first_rule_decides_witness:
  "object_from_message example_lib example_env example_db 0 example_queues spam_message
     = Inr (Retain, example_db)"
proof -
  have 1: "snd (m_from spam_message) \<noteq> []"
    by (simp add: spam_message_def plain_message_def)
  have 2: "ignore_rules example_db 0 =
      [] @ \<lparr>ie_importers = [], ie_pattern = ''spam@evil.com'', ie_keep_in_mailbox = True\<rparr> # []"
    by (simp add: ignore_rules_def example_db_def)
  have 3: "list_all (\<lambda>r'. \<not> list_ex (ignore_test example_env (ie_pattern r'))
       (map snd ([m_from spam_message] @ m_to spam_message @ m_cc spam_message))) []"
    by simp
  have 4: "list_ex (ignore_test example_env (ie_pattern
         \<lparr>ie_importers = [], ie_pattern = ''spam@evil.com'', ie_keep_in_mailbox = True\<rparr>))
       (map snd ([m_from spam_message] @ m_to spam_message @ m_cc spam_message))"
    by (simp add: spam_message_def plain_message_def example_env_def)
  from ignore_list_first_rule_decides [OF 1 2 3 4] show ?thesis by simp
qed

section \<open>Forwarding loops\<close>

lemma fold_delete_cc:
  "fold (delete_cc tid) addresses ccs =
     filter (\<lambda>c. \<not> (cc_ticket c = tid
                      \<and> list_ex (\<lambda>a. map_option lower (cc_email c) = Some (lower a)) addresses)) ccs"
proof (induction addresses arbitrary: ccs)
  case Nil
  then show ?case by simp
next
  case (Cons a addresses)
  have "fold (delete_cc tid) (a # addresses) ccs = fold (delete_cc tid) addresses (delete_cc tid a ccs)"
    by simp
  also have "\<dots> = filter (\<lambda>c. \<not> (cc_ticket c = tid
                      \<and> list_ex (\<lambda>a. map_option lower (cc_email c) = Some (lower a)) addresses))
                 (delete_cc tid a ccs)"
    by (rule Cons.IH)
  also have "\<dots> = filter (\<lambda>c. \<not> (cc_ticket c = tid
                      \<and> list_ex (\<lambda>a. map_option lower (cc_email c) = Some (lower a)) (a # addresses))) ccs"
    unfolding delete_cc_def filter_filter
    by (rule filter_cong) auto
  finally show ?case .
qed

lemma forwarded_addresses_in_loop:
  "is_forwarding_loop message queue \<Longrightarrow>
   forwarded_addresses message queue =
     (case m_delivered message of
        None \<Rightarrow> map snd (m_to message)
      | Some auto_forward \<Rightarrow> split_on CHR '','' (strip auto_forward))"
  by (auto simp: is_forwarding_loop_def forwarded_addresses_def split: option.splits)

text \<open>
  Claim C6, as stated, fails for a message that the ignore list stops first: the
  message carries the loop-marker header, its sender matches a rule whose
  keep-in-mailbox flag is set, and the outcome is Retain, not Consume.
\<close>

theorem forwarding_loop_ignored_sender_counterexample:
  "m_delivered forwarded_spam_message \<noteq> None
   \<and> object_from_message example_lib example_env example_db 0 example_queues forwarded_spam_message
       = Inr (Retain, example_db)"
  by code_simp

text \<open>
  Claim C6, amended. For every message that reaches the loop check (its sender address
  is not empty and no ignore rule matches): if it carries the header
  \<^verbatim>\<open>X-BEAMHelpdesk-Delivered\<close>, or its sender address equals, ignoring case, the e-mail
  address of the queue that routing resolved, then the outcome is Consume and tickets
  and follow-ups are left as they were, whatever the subject carries; and when the
  tracking tag gave the id of an existing ticket, exactly those CC records of that
  ticket are deleted whose e-mail equals, ignoring case, one of the forwarded addresses
  (the comma-separated fields of the header, or the \<^verbatim>\<open>To\<close> addresses when the header
  is absent).
\<close>

theorem forwarding_loop_consumed:
  assumes "snd (m_from message) \<noteq> []"
      and "ignore_match e (ignore_rules d importer)
             (map snd ([m_from message] @ m_to message @ m_cc message)) = None"
      and "classify l qs (clean_subject (m_subject message)) (snd (m_from message)) = (ticket, queue)"
      and "m_delivered message \<noteq> None
           \<or> lower (snd (m_from message)) = lower (q_email_address queue)"
  shows "object_from_message l e d importer qs message =
           Inr (Consume,
                d\<lparr>ticketccs :=
                    (case ticket of
                       None \<Rightarrow> ticketccs d
                     | Some tid \<Rightarrow>
                         if list_ex (\<lambda>t. t_id t = py_int tid) (tickets d) then
                           filter (\<lambda>c. \<not> (cc_ticket c = py_int tid
                                     \<and> list_ex (\<lambda>a. map_option lower (cc_email c) = Some (lower a))
                                          (case m_delivered message of
                                             None \<Rightarrow> map snd (m_to message)
                                           | Some auto_forward \<Rightarrow> split_on CHR '','' (strip auto_forward))))
                             (ticketccs d)
                         else ticketccs d)\<rparr>)"
proof -
  have loop: "is_forwarding_loop message queue"
    using assms(4) by (simp add: is_forwarding_loop_def)
  have "object_from_message l e d importer qs message =
          Inr (Consume, heal_forwarding_loop d message queue ticket)"
    using assms(1,2,3) loop
    unfolding object_from_message_def Let_def by simp
  then show ?thesis
    by (simp add: heal_forwarding_loop_def fold_delete_cc forwarded_addresses_in_loop [OF loop]
          split: option.splits)
qed

lemma loop_classify:
  "classify example_lib example_queues (clean_subject (m_subject loop_message))
      (snd (m_from loop_message)) = (Some ''2'', support_queue)"
  by code_simp

theorem forwarding_loop_consumed_witness:
  "object_from_message example_lib example_env example_db 0 example_queues loop_message =
     Inr (Consume,
          example_db\<lparr>ticketccs := [\<lparr>cc_ticket = 2, cc_user = None, cc_email = Some ''boss@x.com''\<rparr>]\<rparr>)"
proof -
  have 1: "snd (m_from loop_message) \<noteq> []"
    by (simp add: loop_message_def plain_message_def)
  have 2: "ignore_match example_env (ignore_rules example_db 0)
             (map snd ([m_from loop_message] @ m_to loop_message @ m_cc loop_message)) = None"
    by code_simp
  have 4: "m_delivered loop_message \<noteq> None
           \<or> lower (snd (m_from loop_message)) = lower (q_email_address support_queue)"
    by code_simp
  have 5: "list_ex (\<lambda>t. t_id t = py_int ''2'') (tickets example_db)"
    by code_simp
  have 6: "filter (\<lambda>c. \<not> (cc_ticket c = py_int ''2''
                \<and> list_ex (\<lambda>a. map_option lower (cc_email c) = Some (lower a))
                     (case m_delivered loop_message of
                        None \<Rightarrow> map snd (m_to loop_message)
                      | Some auto_forward \<Rightarrow> split_on CHR '','' (strip auto_forward))))
            (ticketccs example_db) = [\<lparr>cc_ticket = 2, cc_user = None, cc_email = Some ''boss@x.com''\<rparr>]"
    by code_simp
  from forwarding_loop_consumed [OF 1 2 loop_classify 4] show ?thesis
    by (simp only: option.case 5 if_True 6)
qed

section \<open>Routing by tracking tag\<close>

lemma startswith_append [simp]: "startswith (p @ s) p"
  by (induction p) auto

lemma startswith_py_in: "startswith s p \<Longrightarrow> py_in p s"
  by (cases s) (auto elim: startswith.elims)

lemma tag_here_opener: "tag_here slug s = Some i \<Longrightarrow> startswith s (''['' @ slug @ ''-'')"
  by (auto simp: tag_here_def Let_def split: if_splits)

lemma py_in_Cons: "py_in p cs \<Longrightarrow> py_in p (c # cs)"
  by simp

lemma match_tracking_opener:
  "match_tracking slug s = Some i \<Longrightarrow> py_in (''['' @ slug @ ''-'') s"
proof (induction s arbitrary: i)
  case Nil
  then show ?case by simp
next
  case (Cons c cs)
  show ?case
  proof (cases "if c = CHR 0x0A then None else match_tracking slug cs")
    case None
    with Cons.prems have "tag_here slug (c # cs) = Some i" by simp
    then have "startswith (c # cs) (''['' @ slug @ ''-'')" by (rule tag_here_opener)
    then show ?thesis by (rule startswith_py_in)
  next
    case (Some j)
    then have "match_tracking slug cs = Some j" by (simp split: if_splits)
    then have "py_in (''['' @ slug @ ''-'') cs" by (rule Cons.IH)
    then show ?thesis by (rule py_in_Cons)
  qed
qed

lemma takeWhile_digits:
  "list_all is_digit digits \<Longrightarrow> takeWhile is_digit (digits @ CHR '']'' # rest) = digits"
  by (induction digits) (auto simp: is_digit_def)

lemma dropWhile_digits:
  "list_all is_digit digits \<Longrightarrow> dropWhile is_digit (digits @ CHR '']'' # rest) = CHR '']'' # rest"
  by (induction digits) (auto simp: is_digit_def)

lemma tag_here_tag:
  assumes "digits \<noteq> []" and "list_all is_digit digits"
  shows "tag_here slug (''['' @ slug @ ''-'' @ digits @ '']'' @ rest) = Some digits"
proof -
  have sw: "startswith ((''['' @ slug @ ''-'') @ digits @ '']'' @ rest) (''['' @ slug @ ''-'')"
    by (rule startswith_append)
  have dr: "drop (length (''['' @ slug @ ''-'')) ((''['' @ slug @ ''-'') @ digits @ '']'' @ rest)
              = digits @ '']'' @ rest"
    by (rule append_eq_conv_conj [THEN iffD1, THEN conjunct2, symmetric]) simp
  show ?thesis
    using sw dr assms takeWhile_digits [OF assms(2), of rest] dropWhile_digits [OF assms(2), of rest]
    by (simp add: tag_here_def Let_def)
qed

lemma match_tracking_tag:
  assumes "CHR 0x0A \<notin> set before"
      and "digits \<noteq> []" and "list_all is_digit digits"
      and "\<not> py_in (''['' @ slug @ ''-'') (slug @ ''-'' @ digits @ '']'' @ rest)"
  shows "match_tracking slug (before @ ''['' @ slug @ ''-'' @ digits @ '']'' @ rest) = Some digits"
  using assms(1)
proof (induction before)
  case Nil
  have "match_tracking slug (slug @ ''-'' @ digits @ '']'' @ rest) = None"
    using match_tracking_opener [of slug "slug @ ''-'' @ digits @ '']'' @ rest"] assms(4)
    by (cases "match_tracking slug (slug @ ''-'' @ digits @ '']'' @ rest)") auto
  then show ?case
    using tag_here_tag [OF assms(2,3), of slug rest] by simp
next
  case (Cons b before)
  then show ?case by auto
qed

text \<open>Once the tracking loop has set the ticket id, no later queue overwrites it.\<close>

lemma tracking_loop_set:
  "tracking_loop subject qs (Some i, queue) = (Some i, queue)"
  by (induction qs) (auto split: option.splits)

lemma tracking_loop_none:
  "list_all (\<lambda>q'. match_tracking (q_slug q') subject = None) earlier \<Longrightarrow>
   tracking_loop subject (earlier @ qs) (None, None) = tracking_loop subject qs (None, None)"
  by (induction earlier) auto

lemma tracking_loop_first:
  assumes "list_all (\<lambda>q'. match_tracking (q_slug q') subject = None) earlier"
      and "match_tracking (q_slug q) subject = Some i"
  shows "tracking_loop subject (earlier @ q # later) (None, None) = (Some i, Some q)"
  using assms by (simp add: tracking_loop_none tracking_loop_set)

lemma classify_tracking:
  assumes "tracking_loop subject (importer_queues qs) (None, None) = (Some i, Some q)"
  shows "classify l qs subject sender_address = (Some i, q)"
  using assms by (simp add: classify_def)

text \<open>
  Claim C9, as stated, fails on two subjects. With two tags of the same queue the
  subject contains the valid tag \<^verbatim>\<open>[support-1]\<close>, but the ticket id is 42: the leading
  \<^verbatim>\<open>.*\<close> of the pattern is greedy and the right-most tag is taken. With a line feed
  before the tag (a folded subject header) the pattern does not match at all, and
  routing falls through to the default queue with no ticket id.
\<close>

theorem tracking_tag_counterexample:
  "classify example_lib example_queues ''[support-1] [support-42] printer broken'' ''user@y.org''
     = (Some ''42'', support_queue)
   \<and> classify example_lib example_queues (''printer broken'' @ [CHR 0x0A] @ '' [support-42]'') ''user@y.org''
     = (None, billing_queue)"
  by code_simp

text \<open>
  Claim C9, amended. For every subject that contains a tracking tag
  \<^verbatim>\<open>[slug-digits]\<close> of an importer queue \<open>q\<close>, with no line feed before the tag and no
  further \<^verbatim>\<open>[slug-\<close> after its opening bracket, and such that no queue before \<open>q\<close> in
  the importer's queue order matches the subject: routing resolves to the queue \<open>q\<close> and
  to the ticket id \<open>digits\<close>, whatever the subject-keyword rules, the sender-address
  rules, the sender and the default queue are. Only one match is taken: the first
  matching queue is not overwritten by a later one.
\<close>

theorem tracking_tag_routing:
  assumes "importer_queues qs = earlier @ q # later"
      and "list_all (\<lambda>q'. match_tracking (q_slug q') subject = None) earlier"
      and "subject = before @ ''['' @ q_slug q @ ''-'' @ digits @ '']'' @ rest"
      and "CHR 0x0A \<notin> set before"
      and "digits \<noteq> []" and "list_all is_digit digits"
      and "\<not> py_in (''['' @ q_slug q @ ''-'') (q_slug q @ ''-'' @ digits @ '']'' @ rest)"
  shows "classify l qs subject sender_address = (Some digits, q)"
proof -
  have "match_tracking (q_slug q) subject = Some digits"
    unfolding assms(3) using assms(4-7) by (rule match_tracking_tag)
  with assms(2) have "tracking_loop subject (earlier @ q # later) (None, None) = (Some digits, Some q)"
    by (rule tracking_loop_first)
  then show ?thesis
    unfolding assms(1) [symmetric] by (rule classify_tracking)
qed

theorem tracking_tag_routing_witness:
  "classify example_lib example_queues ''[support-2] printer broken'' ''user@x.com''
     = (Some ''2'', support_queue)"
proof -
  have 1: "importer_queues example_queues = [] @ support_queue # [billing_queue]"
    by (simp add: example_queues_def)
  have 2: "list_all (\<lambda>q'. match_tracking (q_slug q') ''[support-2] printer broken'' = None) []"
    by simp
  have 3: "''[support-2] printer broken'' =
             [] @ ''['' @ q_slug support_queue @ ''-'' @ ''2'' @ '']'' @ '' printer broken''"
    by (simp add: support_queue_def)
  have 4: "CHR 0x0A \<notin> set []" by simp
  have 5: "''2'' \<noteq> []" by simp
  have 6: "list_all is_digit ''2''" by (simp add: is_digit_def)
  have 7: "\<not> py_in (''['' @ q_slug support_queue @ ''-'')
                  (q_slug support_queue @ ''-'' @ ''2'' @ '']'' @ '' printer broken'')"
    by code_simp
  from tracking_tag_routing [OF 1 2 3 4 5 6 7] show ?thesis .
qed

section \<open>Attachments\<close>

lemma walk_append: "walk l e ticket (ps @ qs) st = walk l e ticket qs (walk l e ticket ps st)"
  by (simp add: walk_def)

lemma walk_Cons: "walk l e ticket (p # ps) st = walk l e ticket ps (walk_part l e ticket st p)"
  by (simp add: walk_def)

lemma walk_Nil: "walk l e ticket [] st = st"
  by (simp add: walk_def)

lemma walk_part_counter:
  "w_counter (walk_part l e ticket st p) =
     w_counter st + (if p_maintype p = ''multipart'' then 0 else 1)"
  by (simp add: walk_part_def Let_def plain_part_def html_part_def attachment_part_def)

lemma walk_counter:
  "w_counter (walk l e ticket ps st) =
     w_counter st + length (filter (\<lambda>p. p_maintype p \<noteq> ''multipart'') ps)"
  by (induction ps arbitrary: st) (simp_all add: walk_Nil walk_Cons walk_part_counter)

lemma walk_part_files:
  "set (w_files st) \<subseteq> set (w_files (walk_part l e ticket st p))"
  by (auto simp: walk_part_def Let_def plain_part_def html_part_def attachment_part_def)

lemma walk_files:
  "set (w_files st) \<subseteq> set (w_files (walk l e ticket ps st))"
proof (induction ps arbitrary: st)
  case Nil
  then show ?case by (simp add: walk_Nil)
next
  case (Cons p ps)
  show ?case
    unfolding walk_Cons
    using walk_part_files [of st l e ticket p] Cons.IH [of "walk_part l e ticket st p"]
    by blast
qed

lemma walk_part_attachment:
  assumes "p_maintype p \<noteq> ''multipart''"
      and "\<not> (p_maintype p = ''text'' \<and> part_name l p = None)"
  shows "\<lparr>up_name = attachment_name l (w_counter st) p (part_name l p),
          up_content = p_payload p,
          up_content_type = guess_type l (attachment_name l (w_counter st) p (part_name l p))\<rparr>
         \<in> set (w_files (walk_part l e ticket st p))"
  using assms by (auto simp: walk_part_def Let_def attachment_part_def)

lemma walk_attachment:
  assumes "p_maintype p \<noteq> ''multipart''"
      and "\<not> (p_maintype p = ''text'' \<and> part_name l p = None)"
  shows "\<lparr>up_name = attachment_name l (length (filter (\<lambda>p. p_maintype p \<noteq> ''multipart'') before)) p (part_name l p),
          up_content = p_payload p,
          up_content_type = guess_type l
             (attachment_name l (length (filter (\<lambda>p. p_maintype p \<noteq> ''multipart'') before)) p (part_name l p))\<rparr>
         \<in> set (w_files (walk l e ticket (before @ p # after) walk_start))"
proof -
  let ?st = "walk l e ticket before walk_start"
  have c: "w_counter ?st = length (filter (\<lambda>p. p_maintype p \<noteq> ''multipart'') before)"
    by (simp add: walk_counter walk_start_def)
  show ?thesis
    unfolding walk_append walk_Cons
    using walk_part_attachment [OF assms, of ?st e ticket] walk_files [of "walk_part l e ticket ?st p" l e ticket after]
    unfolding c by blast
qed

text \<open>What a run that returns a ticket has stored.\<close>

lemma ensure_ticket_attachments:
  "ensure_ticket e d pl found = (ticket, new, d1) \<Longrightarrow> attachments d1 = attachments d \<and> followups d1 = followups d"
  by (auto simp: ensure_ticket_def Let_def split: option.splits if_splits)

lemma attach_subscribe_notify_success:
  assumes "attach_subscribe_notify e d message pl files t f new = Inr (t', d')"
  shows "followups d' = followups d
       \<and> attachments d' = attachments d @
            map (\<lambda>u. \<lparr>att_followup = f_id f, att_filename = up_name u,
                       att_content_type = up_content_type u\<rparr>) files"
  using assms create_ticket_cc_frame [of e "process_attachments d f files" t "pl_to_list pl @ pl_cc_list pl"]
  by (auto simp: attach_subscribe_notify_def notify_frame process_attachments_def split: sum.splits)

lemma create_object_success:
  assumes "create_object_from_email_message e d message tid pl files = Inr (t, d')"
  shows "\<exists>f. followups d' = followups d @ [f]
           \<and> attachments d' = attachments d @
                map (\<lambda>u. \<lparr>att_followup = f_id f, att_filename = up_name u,
                           att_content_type = up_content_type u\<rparr>) files"
proof -
  from assms obtain found where res: "resolve_ticket d (m_in_reply_to message) tid = Inr found"
    by (cases "resolve_ticket d (m_in_reply_to message) tid")
       (auto simp: create_object_from_email_message_def)
  obtain ticket new d1 where ens: "ensure_ticket e d pl found = (ticket, new, d1)"
    by (cases "ensure_ticket e d pl found") auto
  note d1 = ensure_ticket_attachments [OF ens]
  from assms res ens obtain f d2 where cf: "create_followup e d1 ticket pl (m_message_id message) = Inr (f, d2)"
    by (cases "create_followup e d1 ticket pl (m_message_id message)")
       (auto simp: create_object_from_email_message_def)
  then have d2: "followups d2 = followups d1 @ [f]" "attachments d2 = attachments d1"
    and fid: "f_id f = fresh_id (map f_id (followups d1))"
    by (auto simp: create_followup_def Let_def split: if_splits)
  show ?thesis
  proof (cases new)
    case True
    with assms res ens cf obtain t0 where "attach_subscribe_notify e d2 message pl files t0 f True = Inr (t, d')"
      by (cases ticket) (auto simp: create_object_from_email_message_def)
    from attach_subscribe_notify_success [OF this] d1 d2 show ?thesis by auto
  next
    case False
    with assms res ens cf obtain t1 f1 d3 where
      upd: "update_ticket_status e d2 ticket f (snd (pl_sender pl)) = Inr (t1, f1, d3)"
      and fin: "attach_subscribe_notify e d3 message pl files t1 f1 False = Inr (t, d')"
      by (cases "update_ticket_status e d2 ticket f (snd (pl_sender pl))")
         (auto simp: create_object_from_email_message_def)
    from upd obtain t0 where app: "apply_status_update e t0 f (snd (pl_sender pl)) = Inr (t1, f1)"
      and d3: "d3 = save_followup (save_ticket d2 t1) f1"
      by (auto simp: update_ticket_status_def split: option.splits sum.splits)
    note same = apply_status_update_followup [OF app]
    have "followups d3 = followups d1 @ [f1]" "attachments d3 = attachments d1"
      using d3 d2 same fid save_new_followup [of f1 "followups d1" f]
      by (simp_all add: save_followup_def save_ticket_def)
    with attach_subscribe_notify_success [OF fin] d1 show ?thesis by auto
  qed
qed

lemma object_from_message_ingested:
  assumes "object_from_message l e d importer qs message = Inr (Ingested t, d')"
  shows "\<exists>ticket queue.
           classify l qs (clean_subject (m_subject message)) (snd (m_from message)) = (ticket, queue)
           \<and> create_object_from_email_message e d message ticket
               (build_payload l e message (clean_subject (m_subject message)) queue
                  (walk l e ticket (m_parts message) walk_start))
               (pl_files (build_payload l e message (clean_subject (m_subject message)) queue
                  (walk l e ticket (m_parts message) walk_start))) = Inr (t, d')"
  using assms
  unfolding object_from_message_def Let_def
  by (auto split: if_splits option.splits prod.splits sum.splits)

lemma pl_files_walk:
  "set (w_files st) \<subseteq> set (pl_files (build_payload l e message subject queue st))"
  by (auto simp: build_payload_def archive_files_def split: prod.splits)

text \<open>
  Claim C3, amended. For every message that is ingested, every part of the walk that is
  not a multipart container and not an unnamed text part yields an attachment linked to
  the follow-up the run created. A part whose \<^verbatim>\<open>name\<close> parameter is not empty gets the
  file name \<^verbatim>\<open>part-<index>_<name>\<close>; a part whose name is missing or empty gets the
  synthesized name \<^verbatim>\<open>part-<index><ext>\<close>, with the extension guessed from the declared
  content type. The index counts the parts before it that are not multipart containers.
  The content type of the attachment is the one guessed from its file name, not the
  declared one.
\<close>

theorem named_part_attachment:
  assumes "object_from_message l e d importer qs message = Inr (Ingested t, d')"
      and "m_parts message = before @ p # after"
      and "p_maintype p \<noteq> ''multipart''"
      and "\<not> (p_maintype p = ''text'' \<and> part_name l p = None)"
  shows "\<exists>f name. followups d' = followups d @ [f]
           \<and> \<lparr>att_followup = f_id f, att_filename = name, att_content_type = guess_type l name\<rparr>
                \<in> set (attachments d')
           \<and> name =
               (case part_name l p of
                  Some n \<Rightarrow>
                    if n \<noteq> [] then
                      ''part-'' @ str_nat (length (filter (\<lambda>p. p_maintype p \<noteq> ''multipart'') before))
                         @ ''_'' @ n
                    else
                      ''part-'' @ str_nat (length (filter (\<lambda>p. p_maintype p \<noteq> ''multipart'') before))
                         @ (case guess_extension l (p_maintype p @ ''/'' @ p_subtype p) of
                              None \<Rightarrow> ''None'' | Some ext \<Rightarrow> ext)
                | None \<Rightarrow>
                    ''part-'' @ str_nat (length (filter (\<lambda>p. p_maintype p \<noteq> ''multipart'') before))
                       @ (case guess_extension l (p_maintype p @ ''/'' @ p_subtype p) of
                            None \<Rightarrow> ''None'' | Some ext \<Rightarrow> ext))"
proof -
  let ?k = "length (filter (\<lambda>p. p_maintype p \<noteq> ''multipart'') before)"
  let ?name = "attachment_name l ?k p (part_name l p)"
  from object_from_message_ingested [OF assms(1)] obtain ticket queue where
    co: "create_object_from_email_message e d message ticket
               (build_payload l e message (clean_subject (m_subject message)) queue
                  (walk l e ticket (m_parts message) walk_start))
               (pl_files (build_payload l e message (clean_subject (m_subject message)) queue
                  (walk l e ticket (m_parts message) walk_start))) = Inr (t, d')"
    by blast
  let ?files = "pl_files (build_payload l e message (clean_subject (m_subject message)) queue
                  (walk l e ticket (m_parts message) walk_start))"
  from create_object_success [OF co] obtain f where
    f: "followups d' = followups d @ [f]"
    and att: "attachments d' = attachments d @
                map (\<lambda>u. \<lparr>att_followup = f_id f, att_filename = up_name u,
                           att_content_type = up_content_type u\<rparr>) ?files"
    by blast
  have "\<lparr>up_name = ?name, up_content = p_payload p, up_content_type = guess_type l ?name\<rparr>
          \<in> set (w_files (walk l e ticket (m_parts message) walk_start))"
    unfolding assms(2) by (rule walk_attachment [OF assms(3,4)])
  then have "\<lparr>up_name = ?name, up_content = p_payload p, up_content_type = guess_type l ?name\<rparr> \<in> set ?files"
    using pl_files_walk by blast
  then have "\<lparr>att_followup = f_id f, att_filename = ?name, att_content_type = guess_type l ?name\<rparr>
          \<in> set (attachments d')"
    unfolding att by force
  moreover have "?name = (case part_name l p of
                  Some n \<Rightarrow>
                    if n \<noteq> [] then ''part-'' @ str_nat ?k @ ''_'' @ n
                    else ''part-'' @ str_nat ?k
                         @ (case guess_extension l (p_maintype p @ ''/'' @ p_subtype p) of
                              None \<Rightarrow> ''None'' | Some ext \<Rightarrow> ext)
                | None \<Rightarrow>
                    ''part-'' @ str_nat ?k
                       @ (case guess_extension l (p_maintype p @ ''/'' @ p_subtype p) of
                            None \<Rightarrow> ''None'' | Some ext \<Rightarrow> ext))"
    by (simp add: attachment_name_def truthy_def split: option.splits)
  ultimately show ?thesis using f by blast
qed

text \<open>
  Claim C3, as stated, fails: the part declared as \<^verbatim>\<open>application/octet-stream\<close> with the
  name \<^verbatim>\<open>invoice.pdf\<close> is stored as \<^verbatim>\<open>part-1_invoice.pdf\<close> with the content type
  \<^verbatim>\<open>application/pdf\<close> guessed from that name; no attachment is named \<^verbatim>\<open>invoice.pdf\<close>.
\<close>

theorem named_part_counterexample:
  "attachments (final_db (object_from_message example_lib example_env example_db 0 example_queues invoice_message))
     = [\<lparr>att_followup = 2, att_filename = ''part-1_invoice.pdf'', att_content_type = Some ''application/pdf''\<rparr>]
   \<and> \<not> list_ex (\<lambda>a. att_filename a = ''invoice.pdf'')
          (attachments (final_db (object_from_message example_lib example_env example_db 0
                                    example_queues invoice_message)))
   \<and> p_name invoice_part = Some ''invoice.pdf''
   \<and> p_maintype invoice_part @ ''/'' @ p_subtype invoice_part = ''application/octet-stream''"
  by code_simp

lemma invoice_run:
  "\<exists>t d'. object_from_message example_lib example_env example_db 0 example_queues invoice_message
            = Inr (Ingested t, d')"
proof -
  have "case object_from_message example_lib example_env example_db 0 example_queues invoice_message of
          Inl err \<Rightarrow> False
        | Inr (Consume, d') \<Rightarrow> False
        | Inr (Retain, d') \<Rightarrow> False
        | Inr (Ingested t, d') \<Rightarrow> True"
    by code_simp
  then show ?thesis
    by (auto split: sum.splits prod.splits outcome.splits)
qed

theorem named_part_attachment_witness:
  "\<exists>t d' f. object_from_message example_lib example_env example_db 0 example_queues invoice_message
               = Inr (Ingested t, d')
     \<and> followups d' = followups example_db @ [f]
     \<and> \<lparr>att_followup = f_id f, att_filename = ''part-1_invoice.pdf'',
         att_content_type = Some ''application/pdf''\<rparr> \<in> set (attachments d')"
proof -
  from invoice_run obtain t d' where
    run: "object_from_message example_lib example_env example_db 0 example_queues invoice_message
            = Inr (Ingested t, d')"
    by blast
  have parts: "m_parts invoice_message = [plain_text_part] @ invoice_part # []"
    by (simp add: invoice_message_def plain_message_def)
  have single: "p_maintype invoice_part \<noteq> ''multipart''"
    by (simp add: invoice_part_def)
  have named: "\<not> (p_maintype invoice_part = ''text'' \<and> part_name example_lib invoice_part = None)"
    by (simp add: invoice_part_def)
  have name: "(case part_name example_lib invoice_part of
                  Some n \<Rightarrow>
                    if n \<noteq> [] then
                      ''part-'' @ str_nat (length (filter (\<lambda>p. p_maintype p \<noteq> ''multipart'') [plain_text_part]))
                         @ ''_'' @ n
                    else
                      ''part-'' @ str_nat (length (filter (\<lambda>p. p_maintype p \<noteq> ''multipart'') [plain_text_part]))
                         @ (case guess_extension example_lib (p_maintype invoice_part @ ''/'' @ p_subtype invoice_part) of
                              None \<Rightarrow> ''None'' | Some ext \<Rightarrow> ext)
                | None \<Rightarrow>
                    ''part-'' @ str_nat (length (filter (\<lambda>p. p_maintype p \<noteq> ''multipart'') [plain_text_part]))
                       @ (case guess_extension example_lib (p_maintype invoice_part @ ''/'' @ p_subtype invoice_part) of
                            None \<Rightarrow> ''None'' | Some ext \<Rightarrow> ext)) = ''part-1_invoice.pdf''"
    by code_simp
  have type: "guess_type example_lib ''part-1_invoice.pdf'' = Some ''application/pdf''"
    by code_simp
  from named_part_attachment [OF run parts single named] show ?thesis
    unfolding name using run type by auto
qed

end
